theory Spec2Isabelle
  imports Main
begin

section \<open>Python values and built-in operations used by quiz_app.py\<close>

text \<open>
  A Python \<open>str\<close> is a sequence of code points. The model covers the code points below 256
  (Latin-1): a \<^typ>\<open>char\<close> is one code point, and \<open>strip\<close>, \<open>lower\<close> and \<open>int\<close> below are
  CPython's behaviour on that range, which is closed under all three.
\<close>

definition code_point :: "char \<Rightarrow> nat" where
  "code_point c = of_char c"

definition py_isspace :: "char \<Rightarrow> bool" where
  \<comment> \<open>\<open>str.isspace\<close> on one code point: TAB, LF, VT, FF, CR, FS, GS, RS, US, SPACE, NEL, NBSP\<close>
  "py_isspace c =
     (let n = code_point c in (9 \<le> n \<and> n \<le> 13) \<or> (28 \<le> n \<and> n \<le> 32) \<or> n = 133 \<or> n = 160)"

definition strip :: "string \<Rightarrow> string" where
  \<comment> \<open>\<open>s.strip()\<close>: leading and trailing whitespace removed\<close>
  "strip s = rev (dropWhile py_isspace (rev (dropWhile py_isspace s)))"

definition lower_char :: "char \<Rightarrow> char" where
  \<comment> \<open>\<open>A\<close>..\<open>Z\<close> and the Latin-1 capitals 192..222 (without the sign 215) move up by 32\<close>
  "lower_char c =
     (let n = code_point c in
      if (65 \<le> n \<and> n \<le> 90) \<or> (192 \<le> n \<and> n \<le> 222 \<and> n \<noteq> 215) then char_of (n + 32) else c)"

definition lower :: "string \<Rightarrow> string" where
  \<comment> \<open>\<open>s.lower()\<close>\<close>
  "lower s = map lower_char s"

text \<open>
  JSON data after \<open>json.load\<close>, and the values an attribute of a question may hold. A JSON
  object is a Python \<open>dict\<close> with string keys, kept as an association list in insertion order;
  its keys are distinct. JSON numbers are represented by the integers.
\<close>

datatype pyval =
    PNone
  | PBool bool
  | PInt int
  | PStr string
  | PList "pyval list"
  | PDict "(string \<times> pyval) list"

datatype py_error =
    ValueError
  | IndexError
  | KeyError pyval
  | TypeError
  | AttributeError
  | EOFError
  | FileNotFoundError
  | JSONDecodeError
  | PermissionError
  | UnicodeDecodeError

subsection \<open>\<open>int(s)\<close> on a string\<close>

text \<open>
  \<open>int(s)\<close> skips whitespace at both ends (for \<open>int\<close> the separators 28..31 do not count as
  whitespace), reads an optional sign and then decimal digits, where single underscores may
  stand between digits. Anything else raises \<open>ValueError\<close>. CPython's configurable limit on
  the length of the digit string (4300 digits by default since 3.11) is not part of the model.
\<close>

definition int_isspace :: "char \<Rightarrow> bool" where
  "int_isspace c =
     (let n = code_point c in (9 \<le> n \<and> n \<le> 13) \<or> n = 32 \<or> n = 133 \<or> n = 160)"

definition digit_val :: "char \<Rightarrow> nat option" where
  "digit_val c = (let n = code_point c in if 48 \<le> n \<and> n \<le> 57 then Some (n - 48) else None)"

fun parse_digits :: "string \<Rightarrow> nat \<Rightarrow> bool \<Rightarrow> nat option" where
  \<comment> \<open>the flag says that the previous character was a digit\<close>
  "parse_digits [] acc after_digit = (if after_digit then Some acc else None)"
| "parse_digits (c # cs) acc after_digit =
     (if c = CHR ''_'' then (if after_digit then parse_digits cs acc False else None)
      else case digit_val c of
             None \<Rightarrow> None
           | Some d \<Rightarrow> parse_digits cs (10 * acc + d) True)"

definition py_int :: "string \<Rightarrow> py_error + int" where
  "py_int s =
     (case rev (dropWhile int_isspace (rev (dropWhile int_isspace s))) of
        [] \<Rightarrow> Inl ValueError
      | c # cs \<Rightarrow>
          if c = CHR ''-'' then
            (case parse_digits cs 0 False of None \<Rightarrow> Inl ValueError | Some n \<Rightarrow> Inr (- int n))
          else if c = CHR ''+'' then
            (case parse_digits cs 0 False of None \<Rightarrow> Inl ValueError | Some n \<Rightarrow> Inr (int n))
          else
            (case parse_digits (c # cs) 0 False of None \<Rightarrow> Inl ValueError | Some n \<Rightarrow> Inr (int n)))"

subsection \<open>Indexing\<close>

definition norm_index :: "nat \<Rightarrow> int \<Rightarrow> nat option" where
  \<comment> \<open>a negative index counts from the end; outside \<open>-n .. n-1\<close> there is no element\<close>
  "norm_index n i =
     (let j = (if i < 0 then i + int n else i)
      in if 0 \<le> j \<and> j < int n then Some (nat j) else None)"

definition list_getitem :: "'a list \<Rightarrow> int \<Rightarrow> py_error + 'a" where
  \<comment> \<open>\<open>xs[i]\<close> on a list\<close>
  "list_getitem xs i =
     (case norm_index (length xs) i of None \<Rightarrow> Inl IndexError | Some j \<Rightarrow> Inr (xs ! j))"

definition list_pop :: "'a list \<Rightarrow> int \<Rightarrow> py_error + ('a \<times> 'a list)" where
  \<comment> \<open>\<open>xs.pop(i)\<close>: the element removed and the list that is left\<close>
  "list_pop xs i =
     (case norm_index (length xs) i of
        None \<Rightarrow> Inl IndexError
      | Some j \<Rightarrow> Inr (xs ! j, take j xs @ drop (Suc j) xs))"

definition dict_getitem :: "(string \<times> 'v) list \<Rightarrow> string \<Rightarrow> py_error + 'v" where
  \<comment> \<open>\<open>d[k]\<close> on a dict\<close>
  "dict_getitem d k = (case map_of d k of None \<Rightarrow> Inl (KeyError (PStr k)) | Some v \<Rightarrow> Inr v)"

definition dict_contains :: "(string \<times> 'v) list \<Rightarrow> string \<Rightarrow> bool" where
  \<comment> \<open>\<open>k in d\<close>\<close>
  "dict_contains d k = (k \<in> set (map fst d))"

fun dict_setitem :: "(string \<times> 'v) list \<Rightarrow> string \<Rightarrow> 'v \<Rightarrow> (string \<times> 'v) list" where
  \<comment> \<open>\<open>d[k] = v\<close>: an existing key keeps its place, a new key goes to the end\<close>
  "dict_setitem [] k v = [(k, v)]"
| "dict_setitem ((k', v') # d) k v =
     (if k' = k then (k, v) # d else (k', v') # dict_setitem d k v)"

definition getitem :: "pyval \<Rightarrow> pyval \<Rightarrow> py_error + pyval" where
  \<comment> \<open>\<open>x[k]\<close> on any value: lists and strings take integers, dicts their keys\<close>
  "getitem x k =
     (case x of
        PList xs \<Rightarrow> (case k of PInt i \<Rightarrow> list_getitem xs i
                               | PBool b \<Rightarrow> list_getitem xs (if b then 1 else 0)
                               | _ \<Rightarrow> Inl TypeError)
      | PStr s \<Rightarrow> (case k of PInt i \<Rightarrow> map_sum id (\<lambda>c. PStr [c]) (list_getitem s i)
                             | PBool b \<Rightarrow> map_sum id (\<lambda>c. PStr [c]) (list_getitem s (if b then 1 else 0))
                             | _ \<Rightarrow> Inl TypeError)
      | PDict d \<Rightarrow> (case k of PStr key \<Rightarrow> dict_getitem d key
                              | PList _ \<Rightarrow> Inl TypeError
                              | PDict _ \<Rightarrow> Inl TypeError
                              | _ \<Rightarrow> Inl (KeyError k))
      | _ \<Rightarrow> Inl TypeError)"

definition str_strip_lower :: "pyval \<Rightarrow> py_error + string" where
  \<comment> \<open>\<open>x.strip().lower()\<close>: only a \<open>str\<close> has the attribute \<open>strip\<close>\<close>
  "str_strip_lower x = (case x of PStr s \<Rightarrow> Inr (lower (strip s)) | _ \<Rightarrow> Inl AttributeError)"

section \<open>fibonacci.py\<close>

text \<open>
  \<^verbatim>\<open>
  def fibonacci(n):
      a, b = 0, 1
      for _ in range(n):
          a, b = b, a + b
      return a
  \<close>
  The loop runs \<open>range(n)\<close>, which is empty for \<open>n \<le> 0\<close>; the pair \<open>(a, b)\<close> is the loop
  state. Python integers are unbounded, so \<open>int\<close> is exact.
\<close>

primrec fibonacci_loop :: "nat \<Rightarrow> int \<times> int \<Rightarrow> int \<times> int" where
  "fibonacci_loop 0 ab = ab"
| "fibonacci_loop (Suc k) ab = fibonacci_loop k (snd ab, fst ab + snd ab)"

definition fibonacci :: "int \<Rightarrow> int" where
  "fibonacci n = fst (fibonacci_loop (nat n) (0, 1))"

text \<open>The Fibonacci numbers as the convention states them: the reference the loop is compared with.\<close>

fun F_spec :: "nat \<Rightarrow> int" where
  "F_spec 0 = 0"
| "F_spec (Suc 0) = 1"
| "F_spec (Suc (Suc n)) = F_spec (Suc n) + F_spec n"

section \<open>quiz_app.py: text written by \<open>print\<close>\<close>

text \<open>
  \<open>print(x)\<close> and an f-string field \<open>{x}\<close> write \<open>str(x)\<close>. On a string that is the string
  itself; on the other values it is the \<open>repr\<close>, which quotes and escapes the strings inside
  lists and dicts.
\<close>

definition digit_char :: "nat \<Rightarrow> char" where
  "digit_char d = char_of (48 + d)"

fun str_of_nat :: "nat \<Rightarrow> string" where
  "str_of_nat n = (if n < 10 then [digit_char n] else str_of_nat (n div 10) @ [digit_char (n mod 10)])"

declare str_of_nat.simps [simp del]

definition str_of_int :: "int \<Rightarrow> string" where
  "str_of_int i = (if i < 0 then CHR ''-'' # str_of_nat (nat (- i)) else str_of_nat (nat i))"

definition hex_char :: "nat \<Rightarrow> char" where
  "hex_char d = (if d < 10 then char_of (48 + d) else char_of (87 + d))"

definition py_isprintable :: "char \<Rightarrow> bool" where
  "py_isprintable c =
     (let n = code_point c in \<not> (n < 32 \<or> (127 \<le> n \<and> n \<le> 160) \<or> n = 173))"

definition repr_char :: "char \<Rightarrow> char \<Rightarrow> string" where
  \<comment> \<open>one character inside a string literal delimited by \<open>q\<close>\<close>
  "repr_char q c =
     (if c = CHR 0x5C then [CHR 0x5C, CHR 0x5C]
      else if c = q then [CHR 0x5C, q]
      else if c = CHR 0x09 then [CHR 0x5C, CHR ''t'']
      else if c = CHR 0x0A then [CHR 0x5C, CHR ''n'']
      else if c = CHR 0x0D then [CHR 0x5C, CHR ''r'']
      else if py_isprintable c then [c]
      else [CHR 0x5C, CHR ''x'', hex_char (code_point c div 16), hex_char (code_point c mod 16)])"

definition repr_str :: "string \<Rightarrow> string" where
  \<comment> \<open>single quotes, unless the string has a single quote and no double quote\<close>
  "repr_str s =
     (let q = (if CHR 0x27 \<in> set s \<and> CHR 0x22 \<notin> set s then CHR 0x22 else CHR 0x27)
      in [q] @ concat (map (repr_char q) s) @ [q])"

fun join :: "string \<Rightarrow> string list \<Rightarrow> string" where
  "join sep [] = []"
| "join sep [x] = x"
| "join sep (x # y # ys) = x @ sep @ join sep (y # ys)"

fun py_repr :: "pyval \<Rightarrow> string" where
  "py_repr PNone = ''None''"
| "py_repr (PBool b) = (if b then ''True'' else ''False'')"
| "py_repr (PInt i) = str_of_int i"
| "py_repr (PStr s) = repr_str s"
| "py_repr (PList xs) = ''['' @ join '', '' (map py_repr xs) @ '']''"
| "py_repr (PDict kvs) =
     ''{'' @ join '', '' (map (\<lambda>kv. repr_str (fst kv) @ '': '' @ py_repr (snd kv)) kvs) @ ''}''"

definition py_str :: "pyval \<Rightarrow> string" where
  "py_str x = (case x of PStr s \<Rightarrow> s | _ \<Rightarrow> py_repr x)"

definition py_iter :: "pyval \<Rightarrow> py_error + pyval list" where
  \<comment> \<open>the items a \<open>for\<close> loop or \<open>enumerate\<close> sees: a list's elements, a string's characters, a dict's keys\<close>
  "py_iter x =
     (case x of
        PList xs \<Rightarrow> Inr xs
      | PStr s \<Rightarrow> Inr (map (\<lambda>c. PStr [c]) s)
      | PDict kvs \<Rightarrow> Inr (map (\<lambda>kv. PStr (fst kv)) kvs)
      | _ \<Rightarrow> Inl TypeError)"

section \<open>quiz_app.py: the console\<close>

text \<open>
  Standard input is the list of lines still to be read, standard output the list of strings
  written so far: one entry for each \<open>print\<close> call and one for each prompt of \<open>input\<close>.
  \<open>input\<close> raises \<open>EOFError\<close> when no line is left. A statement that can raise returns the
  error or its value together with the state it leaves behind.
\<close>

record io =
  stdin :: "string list"
  stdout :: "string list"

definition print :: "string \<Rightarrow> 'a io_scheme \<Rightarrow> 'a io_scheme" where
  "print s w = w\<lparr>stdout := stdout w @ [s]\<rparr>"

definition prints :: "string list \<Rightarrow> 'a io_scheme \<Rightarrow> 'a io_scheme" where
  \<comment> \<open>several \<open>print\<close> calls in a row\<close>
  "prints ss w = w\<lparr>stdout := stdout w @ ss\<rparr>"

definition input :: "string \<Rightarrow> 'a io_scheme \<Rightarrow> (py_error + string) \<times> 'a io_scheme" where
  "input prompt w =
     (case stdin w of
        [] \<Rightarrow> (Inl EOFError, print prompt w)
      | l # ls \<Rightarrow> (Inr l, (print prompt w)\<lparr>stdin := ls\<rparr>))"

definition and_then :: "py_error + 'a \<Rightarrow> ('a \<Rightarrow> py_error + 'b) \<Rightarrow> py_error + 'b" where
  \<comment> \<open>evaluation in sequence: the first error raised ends it\<close>
  "and_then r f = (case r of Inl e \<Rightarrow> Inl e | Inr x \<Rightarrow> f x)"

section \<open>quiz_app.py: the question classes\<close>

text \<open>
  An object of class \<open>Question\<close>, \<open>MultipleChoiceQuestion\<close> or \<open>TrueFalseQuestion\<close>, with the
  attributes its constructor stores. The constructors check nothing, so an attribute holds
  whatever value was passed.
\<close>

datatype question =
    Question (question_text: pyval) (correct_answer: pyval)
  | MultipleChoiceQuestion (question_text: pyval) (choices: pyval) (correct_answer: pyval)
  | TrueFalseQuestion (question_text: pyval) (correct_answer: pyval)

definition Question_is_correct :: "question \<Rightarrow> string \<Rightarrow> py_error + bool" where
  \<comment> \<open>\<open>answer.strip().lower() == self.correct_answer.strip().lower()\<close>\<close>
  "Question_is_correct self answer =
     and_then (str_strip_lower (correct_answer self)) (\<lambda>c. Inr (lower (strip answer) = c))"

definition except_ValueError_IndexError :: "py_error + bool \<Rightarrow> py_error + bool" where
  \<comment> \<open>\<open>try: ... except (ValueError, IndexError): return False\<close>\<close>
  "except_ValueError_IndexError body =
     (case body of
        Inl e \<Rightarrow> if e = ValueError \<or> e = IndexError then Inr False else Inl e
      | Inr b \<Rightarrow> Inr b)"

definition MultipleChoiceQuestion_is_correct :: "question \<Rightarrow> string \<Rightarrow> py_error + bool" where
  "MultipleChoiceQuestion_is_correct self answer =
     except_ValueError_IndexError
       (and_then (py_int answer) (\<lambda>n.
          let selected_index = n - 1 in
          and_then (getitem (choices self) (PInt selected_index)) (\<lambda>choice.
          and_then (str_strip_lower choice) (\<lambda>l.
          and_then (str_strip_lower (correct_answer self)) (\<lambda>r.
          Inr (l = r))))))"

fun is_correct :: "question \<Rightarrow> string \<Rightarrow> py_error + bool" where
  \<comment> \<open>method lookup: only \<open>MultipleChoiceQuestion\<close> overrides \<open>is_correct\<close>\<close>
  "is_correct (MultipleChoiceQuestion t cs c) answer =
     MultipleChoiceQuestion_is_correct (MultipleChoiceQuestion t cs c) answer"
| "is_correct q answer = Question_is_correct q answer"

definition Question_display :: "question \<Rightarrow> 'a io_scheme \<Rightarrow> (py_error + unit) \<times> 'a io_scheme" where
  "Question_display self w = (Inr (), print (py_str (question_text self)) w)"

definition choice_line :: "nat \<Rightarrow> pyval \<Rightarrow> string" where
  \<comment> \<open>\<open>f"{idx}. {choice}"\<close>\<close>
  "choice_line idx choice = str_of_nat idx @ ''. '' @ py_str choice"

definition enumerate1 :: "'a list \<Rightarrow> (nat \<times> 'a) list" where
  \<comment> \<open>\<open>enumerate(xs, 1)\<close>\<close>
  "enumerate1 xs = zip [1 ..< Suc (length xs)] xs"

definition MultipleChoiceQuestion_display ::
  "question \<Rightarrow> 'a io_scheme \<Rightarrow> (py_error + unit) \<times> 'a io_scheme" where
  "MultipleChoiceQuestion_display self w =
     (let w1 = snd (Question_display self w) in
      case py_iter (choices self) of
        Inl e \<Rightarrow> (Inl e, w1)
      | Inr cs \<Rightarrow> (Inr (), prints (map (\<lambda>(idx, choice). choice_line idx choice) (enumerate1 cs)) w1))"

definition TrueFalseQuestion_display ::
  "question \<Rightarrow> 'a io_scheme \<Rightarrow> (py_error + unit) \<times> 'a io_scheme" where
  "TrueFalseQuestion_display self w =
     (let w1 = snd (Question_display self w) in
      (Inr (), print ''2. False'' (print ''1. True'' w1)))"

fun display :: "question \<Rightarrow> 'a io_scheme \<Rightarrow> (py_error + unit) \<times> 'a io_scheme" where
  "display (Question t c) w = Question_display (Question t c) w"
| "display (MultipleChoiceQuestion t cs c) w =
     MultipleChoiceQuestion_display (MultipleChoiceQuestion t cs c) w"
| "display (TrueFalseQuestion t c) w = TrueFalseQuestion_display (TrueFalseQuestion t c) w"

fun to_dict :: "question \<Rightarrow> pyval" where
  "to_dict (Question t c) =
     PDict [(''type'', PStr ''Question''), (''question_text'', t), (''correct_answer'', c)]"
| "to_dict (MultipleChoiceQuestion t cs c) =
     PDict [(''type'', PStr ''MultipleChoice''), (''question_text'', t), (''choices'', cs),
            (''correct_answer'', c)]"
| "to_dict (TrueFalseQuestion t c) =
     PDict [(''type'', PStr ''TrueFalse''), (''question_text'', t), (''correct_answer'', c)]"

definition Question_from_dict :: "pyval \<Rightarrow> py_error + question" where
  "Question_from_dict data =
     and_then (getitem data (PStr ''question_text'')) (\<lambda>t.
     and_then (getitem data (PStr ''correct_answer'')) (\<lambda>c.
     Inr (Question t c)))"

definition MultipleChoiceQuestion_from_dict :: "pyval \<Rightarrow> py_error + question" where
  "MultipleChoiceQuestion_from_dict data =
     and_then (getitem data (PStr ''question_text'')) (\<lambda>t.
     and_then (getitem data (PStr ''choices'')) (\<lambda>cs.
     and_then (getitem data (PStr ''correct_answer'')) (\<lambda>c.
     Inr (MultipleChoiceQuestion t cs c))))"

definition TrueFalseQuestion_from_dict :: "pyval \<Rightarrow> py_error + question" where
  "TrueFalseQuestion_from_dict data =
     and_then (getitem data (PStr ''question_text'')) (\<lambda>t.
     and_then (getitem data (PStr ''correct_answer'')) (\<lambda>c.
     Inr (TrueFalseQuestion t c)))"

definition create_question :: "pyval \<Rightarrow> py_error + question" where
  "create_question data =
     and_then (getitem data (PStr ''type'')) (\<lambda>question_type.
       if question_type = PStr ''MultipleChoice'' then MultipleChoiceQuestion_from_dict data
       else if question_type = PStr ''TrueFalse'' then TrueFalseQuestion_from_dict data
       else Question_from_dict data)"

section \<open>quiz_app.py: QuizManager\<close>

text \<open>
  The state of a session: the console and the manager's attribute \<open>quizzes\<close>, a dict from
  quiz name to the list of its questions, in insertion order.
\<close>

record session = io +
  quizzes :: "(string \<times> question list) list"

definition then_run ::
  "('s \<Rightarrow> (py_error + 'a) \<times> 's) \<Rightarrow> ('a \<Rightarrow> 's \<Rightarrow> (py_error + 'b) \<times> 's) \<Rightarrow> 's \<Rightarrow> (py_error + 'b) \<times> 's" where
  \<comment> \<open>one statement after another: an error ends the run and keeps the state reached\<close>
  "then_run m f s = (case m s of (Inl e, s') \<Rightarrow> (Inl e, s') | (Inr x, s') \<Rightarrow> f x s')"

subsection \<open>Loading\<close>

fun map_raising :: "('a \<Rightarrow> py_error + 'b) \<Rightarrow> 'a list \<Rightarrow> py_error + 'b list" where
  \<comment> \<open>a list comprehension \<open>[f(x) for x in xs]\<close>: the first error raised ends it\<close>
  "map_raising f [] = Inr []"
| "map_raising f (x # xs) =
     and_then (f x) (\<lambda>y. and_then (map_raising f xs) (\<lambda>ys. Inr (y # ys)))"

definition create_questions :: "pyval \<Rightarrow> py_error + question list" where
  \<comment> \<open>\<open>[self.create_question(q) for q in questions]\<close>\<close>
  "create_questions questions = and_then (py_iter questions) (map_raising create_question)"

fun load_items ::
  "(string \<times> pyval) list \<Rightarrow> (string \<times> question list) list \<Rightarrow> py_error + (string \<times> question list) list" where
  \<comment> \<open>the dict comprehension over \<open>data.items()\<close>, with the dict built so far\<close>
  "load_items [] acc = Inr acc"
| "load_items ((name, questions) # rest) acc =
     and_then (create_questions questions) (\<lambda>qs. load_items rest (dict_setitem acc name qs))"

definition items :: "pyval \<Rightarrow> py_error + (string \<times> pyval) list" where
  \<comment> \<open>\<open>data.items()\<close>: only a dict has the method\<close>
  "items data = (case data of PDict kvs \<Rightarrow> Inr kvs | _ \<Rightarrow> Inl AttributeError)"

definition load_quizzes :: "py_error + pyval \<Rightarrow> py_error + (string \<times> question list) list" where
  \<comment> \<open>the argument is what \<open>open\<close> and \<open>json.load\<close> give for the file: the error raised or the value parsed\<close>
  "load_quizzes file =
     (case and_then file (\<lambda>data. and_then (items data) (\<lambda>kvs. load_items kvs [])) of
        Inl e \<Rightarrow> if e = FileNotFoundError \<or> e = JSONDecodeError then Inr [] else Inl e
      | Inr d \<Rightarrow> Inr d)"

definition save_data :: "(string \<times> question list) list \<Rightarrow> pyval" where
  \<comment> \<open>the value \<open>save_quizzes\<close> hands to \<open>json.dump\<close>\<close>
  "save_data qz = PDict (map (\<lambda>(name, questions). (name, PList (map to_dict questions))) qz)"

subsection \<open>Operations\<close>

definition display_quizzes :: "session \<Rightarrow> (py_error + unit) \<times> session" where
  "display_quizzes w =
     (let w1 = print (CHR 0x0A # ''Available Quizzes:'') w;
          w2 = prints (map (\<lambda>(idx, quiz_name). str_of_nat idx @ ''. '' @ quiz_name)
                          (enumerate1 (map fst (quizzes w1)))) w1
      in (Inr (), print [] w2))"

definition add_quiz :: "string \<Rightarrow> session \<Rightarrow> (py_error + unit) \<times> session" where
  "add_quiz quiz_name w =
     (if dict_contains (quizzes w) quiz_name then (Inr (), print ''Quiz already exists!'' w)
      else (Inr (), print (''Quiz '' @ [CHR 0x27] @ quiz_name @ [CHR 0x27] @ '' created.'')
                      (w\<lparr>quizzes := dict_setitem (quizzes w) quiz_name []\<rparr>)))"

fun split_comma :: "string \<Rightarrow> string list" where
  \<comment> \<open>\<open>s.split(",")\<close>\<close>
  "split_comma [] = [[]]"
| "split_comma (c # cs) =
     (if c = CHR '','' then [] # split_comma cs
      else case split_comma cs of [] \<Rightarrow> [[c]] | x # xs \<Rightarrow> (c # x) # xs)"

definition read_question :: "string \<Rightarrow> session \<Rightarrow> (py_error + question option) \<times> session" where
  \<comment> \<open>the branches of \<open>add_question_to_quiz\<close> on the type chosen; \<open>None\<close> for an invalid option\<close>
  "read_question choice =
     (if choice = ''1'' then
        then_run (input ''Enter question text: '') (\<lambda>question_text.
        then_run (input ''Enter choices (comma-separated): '') (\<lambda>line.
        let choices = split_comma line in
        then_run (input ''Enter the correct answer: '') (\<lambda>correct_answer.
        Pair (Inr (Some (MultipleChoiceQuestion (PStr question_text) (PList (map PStr choices))
                           (PStr correct_answer)))))))
      else if choice = ''2'' then
        then_run (input ''Enter question text: '') (\<lambda>question_text.
        then_run (input ''Enter correct answer (True/False): '') (\<lambda>correct_answer.
        Pair (Inr (Some (TrueFalseQuestion (PStr question_text) (PStr correct_answer))))))
      else if choice = ''3'' then
        then_run (input ''Enter question text: '') (\<lambda>question_text.
        then_run (input ''Enter correct answer: '') (\<lambda>correct_answer.
        Pair (Inr (Some (Question (PStr question_text) (PStr correct_answer))))))
      else (\<lambda>w. (Inr None, print ''Invalid option!'' w)))"

definition add_question_to_quiz :: "string \<Rightarrow> session \<Rightarrow> (py_error + unit) \<times> session" where
  "add_question_to_quiz quiz_name w =
     (let w1 = prints [CHR 0x0A # ''Adding a Question:'', ''1. Multiple Choice'', ''2. True/False'',
                       ''3. Basic Question''] w
      in then_run (input ''Select question type: '') (\<lambda>choice.
         then_run (read_question choice) (\<lambda>made w2.
           case made of
             None \<Rightarrow> (Inr (), w2)
           | Some question \<Rightarrow>
               (case dict_getitem (quizzes w2) quiz_name of
                  Inl e \<Rightarrow> (Inl e, w2)
                | Inr questions \<Rightarrow>
                    (Inr (), print ''Question added!''
                               (w2\<lparr>quizzes := dict_setitem (quizzes w2) quiz_name
                                                  (questions @ [question])\<rparr>))))) w1)"

definition question_line :: "nat \<Rightarrow> question \<Rightarrow> string" where
  \<comment> \<open>\<open>f"{idx}. {question.question_text}"\<close>\<close>
  "question_line idx question = str_of_nat idx @ ''. '' @ py_str (question_text question)"

definition remove_question_from_quiz ::
  "string \<Rightarrow> session \<Rightarrow> (py_error + question option) \<times> session" where
  \<comment> \<open>the value is what the method returns: it has no \<open>return\<close> with a value, so \<open>None\<close> on every path\<close>
  "remove_question_from_quiz quiz_name w =
     (case dict_getitem (quizzes w) quiz_name of
        Inl e \<Rightarrow> (Inl e, w)
      | Inr questions \<Rightarrow>
          if questions = [] then (Inr None, print ''No questions to remove!'' w)
          else
            let w1 = prints (map (\<lambda>(idx, question). question_line idx question)
                                 (enumerate1 questions)) w
            in then_run (input ''Enter question number to remove: '') (\<lambda>line w2.
                 case py_int line of
                   Inl e \<Rightarrow>
                     if e = ValueError then (Inr None, print ''Invalid input!'' w2) else (Inl e, w2)
                 | Inr choice \<Rightarrow>
                     if 1 \<le> choice \<and> choice \<le> int (length questions) then
                       (case list_pop questions (choice - 1) of
                          Inl e \<Rightarrow>
                            if e = ValueError then (Inr None, print ''Invalid input!'' w2)
                            else (Inl e, w2)
                        | Inr (removed_question, rest) \<Rightarrow>
                            (Inr None,
                             print (''Removed question: '' @ py_str (question_text removed_question))
                               (w2\<lparr>quizzes := dict_setitem (quizzes w2) quiz_name rest\<rparr>)))
                     else (Inr None, print ''Invalid question number!'' w2)) w1)"

definition view_questions :: "string \<Rightarrow> session \<Rightarrow> (py_error + unit) \<times> session" where
  "view_questions quiz_name w =
     (let w1 = print (CHR 0x0A # ''Questions in Quiz '' @ [CHR 0x27] @ quiz_name @ [CHR 0x27] @ '':'') w
      in case dict_getitem (quizzes w1) quiz_name of
           Inl e \<Rightarrow> (Inl e, w1)
         | Inr questions \<Rightarrow>
             (Inr (), print [] (prints (map (\<lambda>(idx, question). question_line idx question)
                                            (enumerate1 questions)) w1)))"

definition edit_menu :: "string \<Rightarrow> string list" where
  "edit_menu quiz_name =
     [CHR 0x0A # ''Editing Quiz: '' @ quiz_name, ''1. Add Question'', ''2. Remove Question'',
      ''3. View Questions'', ''4. Done'']"

subsection \<open>The editing loop\<close>

text \<open>
  \<open>edit_quiz\<close> runs \<open>while True\<close>, reading one option in each round. Every round takes a line
  from standard input and no operation puts one back, so on a finite input the loop ends: with
  option 4, or with the \<open>EOFError\<close> of \<open>input\<close> when the lines run out.
\<close>

lemma stdin_print: "stdin (print s w) = stdin w"
  by (simp add: print_def)

lemma stdin_prints: "stdin (prints ss w) = stdin w"
  by (simp add: prints_def)

lemma input_stdin_le: "length (stdin (snd (input p w))) \<le> length (stdin w)"
  by (simp add: input_def stdin_print split: list.split)

lemma input_stdin_less: "input p w = (Inr l, w') \<Longrightarrow> length (stdin w') < length (stdin w)"
  by (auto simp: input_def stdin_print split: list.splits)

lemma then_run_stdin_le:
  assumes "\<And>s. length (stdin (snd (m s))) \<le> length (stdin s)"
    and "\<And>x s. length (stdin (snd (f x s))) \<le> length (stdin s)"
  shows "length (stdin (snd (then_run m f s))) \<le> length (stdin s)"
proof (cases "m s")
  case (Pair r s')
  have s': "length (stdin s') \<le> length (stdin s)"
    using assms(1) [of s] Pair by simp
  show ?thesis
  proof (cases r)
    case (Inl e)
    with Pair s' show ?thesis by (simp add: then_run_def)
  next
    case (Inr x)
    have "length (stdin (snd (f x s'))) \<le> length (stdin s')" by (rule assms(2))
    with Pair Inr s' show ?thesis by (simp add: then_run_def)
  qed
qed

lemma read_question_stdin_le: "length (stdin (snd (read_question c w))) \<le> length (stdin w)"
proof -
  have three: "\<And>p1 p2 p3 (g :: string \<Rightarrow> string \<Rightarrow> string \<Rightarrow> question) w :: session.
    length (stdin (snd (then_run (input p1) (\<lambda>a. then_run (input p2) (\<lambda>b. then_run (input p3)
       (\<lambda>c. Pair (Inr (Some (g a b c)))))) w))) \<le> length (stdin w)"
    by (intro then_run_stdin_le input_stdin_le) simp
  have two: "\<And>p1 p2 (g :: string \<Rightarrow> string \<Rightarrow> question) w :: session.
    length (stdin (snd (then_run (input p1) (\<lambda>a. then_run (input p2)
       (\<lambda>b. Pair (Inr (Some (g a b))))) w))) \<le> length (stdin w)"
    by (intro then_run_stdin_le input_stdin_le) simp
  show ?thesis
    unfolding read_question_def Let_def
    using three two by (simp add: stdin_print)
qed

lemma add_question_to_quiz_stdin_le:
  "length (stdin (snd (add_question_to_quiz n w))) \<le> length (stdin w)"
proof -
  have "length (stdin (snd (add_question_to_quiz n w)))
      \<le> length (stdin (prints [CHR 0x0A # ''Adding a Question:'', ''1. Multiple Choice'',
            ''2. True/False'', ''3. Basic Question''] w))"
    unfolding add_question_to_quiz_def Let_def
    by (intro then_run_stdin_le input_stdin_le read_question_stdin_le)
       (simp add: stdin_print split: option.split sum.split)
  then show ?thesis by (simp add: stdin_prints)
qed

lemma remove_question_from_quiz_stdin_le:
  "length (stdin (snd (remove_question_from_quiz n w))) \<le> length (stdin w)"
proof (cases "dict_getitem (quizzes w) n")
  case (Inl e)
  then show ?thesis by (simp add: remove_question_from_quiz_def)
next
  case (Inr qs)
  show ?thesis
  proof (cases "qs = []")
    case True
    with Inr show ?thesis by (simp add: remove_question_from_quiz_def stdin_print)
  next
    case False
    have "length (stdin (snd (remove_question_from_quiz n w)))
        \<le> length (stdin (prints (map (\<lambda>(idx, question). question_line idx question)
              (enumerate1 qs)) w))"
      using Inr False unfolding remove_question_from_quiz_def Let_def
      by (simp, intro then_run_stdin_le input_stdin_le)
         (simp add: stdin_print split: sum.split prod.split)
    then show ?thesis by (simp add: stdin_prints)
  qed
qed

lemma view_questions_stdin: "stdin (snd (view_questions n w)) = stdin w"
  by (simp add: view_questions_def Let_def stdin_print stdin_prints split: sum.split)

function edit_loop :: "string \<Rightarrow> session \<Rightarrow> (py_error + unit) \<times> session" where
  "edit_loop quiz_name w =
     (case input ''Select an option: '' (prints (edit_menu quiz_name) w) of
        (Inl e, w1) \<Rightarrow> (Inl e, w1)
      | (Inr choice, w1) \<Rightarrow>
          if choice = ''1'' then
            (case add_question_to_quiz quiz_name w1 of
               (Inl e, w2) \<Rightarrow> (Inl e, w2)
             | (Inr u, w2) \<Rightarrow> edit_loop quiz_name w2)
          else if choice = ''2'' then
            (case remove_question_from_quiz quiz_name w1 of
               (Inl e, w2) \<Rightarrow> (Inl e, w2)
             | (Inr r, w2) \<Rightarrow> edit_loop quiz_name w2)
          else if choice = ''3'' then
            (case view_questions quiz_name w1 of
               (Inl e, w2) \<Rightarrow> (Inl e, w2)
             | (Inr u, w2) \<Rightarrow> edit_loop quiz_name w2)
          else if choice = ''4'' then (Inr (), w1)
          else edit_loop quiz_name (print ''Invalid option!'' w1))"
  by pat_completeness auto

termination
proof (relation "measure (\<lambda>(quiz_name, w). length (stdin w))")
  show "wf (measure (\<lambda>(quiz_name :: string, w :: session). length (stdin w)))" by simp
next
  fix quiz_name :: string and w w1 w2 :: session and r choice u
  assume i: "(r, w1) = input ''Select an option: '' (prints (edit_menu quiz_name) w)"
    and r: "r = Inr choice"
    and a: "(u, w2) = add_question_to_quiz quiz_name w1"
  have "length (stdin w1) < length (stdin w)"
    using input_stdin_less [of "''Select an option: ''" "prints (edit_menu quiz_name) w" choice w1] i r
    by (simp add: stdin_prints)
  moreover have "length (stdin w2) \<le> length (stdin w1)"
    using add_question_to_quiz_stdin_le [of quiz_name w1] a [symmetric] by simp
  ultimately show "((quiz_name, w2), (quiz_name, w)) \<in> measure (\<lambda>(quiz_name, w). length (stdin w))"
    by simp
next
  fix quiz_name :: string and w w1 w2 :: session and r choice u
  assume i: "(r, w1) = input ''Select an option: '' (prints (edit_menu quiz_name) w)"
    and r: "r = Inr choice"
    and a: "(u, w2) = remove_question_from_quiz quiz_name w1"
  have "length (stdin w1) < length (stdin w)"
    using input_stdin_less [of "''Select an option: ''" "prints (edit_menu quiz_name) w" choice w1] i r
    by (simp add: stdin_prints)
  moreover have "length (stdin w2) \<le> length (stdin w1)"
    using remove_question_from_quiz_stdin_le [of quiz_name w1] a [symmetric] by simp
  ultimately show "((quiz_name, w2), (quiz_name, w)) \<in> measure (\<lambda>(quiz_name, w). length (stdin w))"
    by simp
next
  fix quiz_name :: string and w w1 w2 :: session and r choice u
  assume i: "(r, w1) = input ''Select an option: '' (prints (edit_menu quiz_name) w)"
    and r: "r = Inr choice"
    and a: "(u, w2) = view_questions quiz_name w1"
  have "length (stdin w1) < length (stdin w)"
    using input_stdin_less [of "''Select an option: ''" "prints (edit_menu quiz_name) w" choice w1] i r
    by (simp add: stdin_prints)
  moreover have "stdin w2 = stdin w1"
    using view_questions_stdin [of quiz_name w1] a [symmetric] by simp
  ultimately show "((quiz_name, w2), (quiz_name, w)) \<in> measure (\<lambda>(quiz_name, w). length (stdin w))"
    by simp
next
  fix quiz_name :: string and w w1 :: session and r choice
  assume i: "(r, w1) = input ''Select an option: '' (prints (edit_menu quiz_name) w)"
    and r: "r = Inr choice"
  have "length (stdin w1) < length (stdin w)"
    using input_stdin_less [of "''Select an option: ''" "prints (edit_menu quiz_name) w" choice w1] i r
    by (simp add: stdin_prints)
  then show "((quiz_name, print ''Invalid option!'' w1), (quiz_name, w))
      \<in> measure (\<lambda>(quiz_name, w). length (stdin w))"
    by (simp add: stdin_print)
qed

declare edit_loop.simps [simp del]

definition edit_quiz :: "string \<Rightarrow> session \<Rightarrow> (py_error + unit) \<times> session" where
  "edit_quiz quiz_name w =
     (if \<not> dict_contains (quizzes w) quiz_name then (Inr (), print ''Quiz not found!'' w)
      else edit_loop quiz_name w)"

section \<open>quiz_app.py: Quiz\<close>

record quiz =
  questions :: "question list"
  score :: int

definition Quiz_init :: "question list \<Rightarrow> quiz" where
  "Quiz_init qs = \<lparr>questions = qs, score = 0\<rparr>"

fun start_loop ::
  "(nat \<times> question) list \<Rightarrow> quiz \<Rightarrow> 'a io_scheme \<Rightarrow> (py_error + quiz) \<times> 'a io_scheme" where
  \<comment> \<open>the \<open>for\<close> loop of \<open>start\<close> over the numbered questions still to be asked\<close>
  "start_loop [] self w = (Inr self, w)"
| "start_loop ((idx, question) # rest) self w =
     (let w1 = print (CHR 0x0A # ''Question '' @ str_of_nat idx @ '':'') w in
      case display question w1 of
        (Inl e, w2) \<Rightarrow> (Inl e, w2)
      | (Inr u, w2) \<Rightarrow>
          (case input ''Your answer: '' w2 of
             (Inl e, w3) \<Rightarrow> (Inl e, w3)
           | (Inr answer, w3) \<Rightarrow>
               (case is_correct question answer of
                  Inl e \<Rightarrow> (Inl e, w3)
                | Inr ok \<Rightarrow>
                    if ok then
                      start_loop rest (self\<lparr>score := score self + 1\<rparr>) (print ''Correct!'' w3)
                    else
                      start_loop rest self
                        (print (''Wrong! The correct answer was: '' @ py_str (correct_answer question))
                           w3))))"

definition start :: "quiz \<Rightarrow> 'a io_scheme \<Rightarrow> (py_error + quiz) \<times> 'a io_scheme" where
  "start self w =
     (let w1 = print (replicate 30 CHR ''-'') (print ''Starting the Quiz!'' w) in
      case start_loop (enumerate1 (questions self)) self w1 of
        (Inl e, w2) \<Rightarrow> (Inl e, w2)
      | (Inr self', w2) \<Rightarrow>
          (Inr self',
           print (''Quiz Finished! Your score: '' @ str_of_int (score self') @ ''/''
                    @ str_of_nat (length (questions self')))
             (print (replicate 30 CHR ''-'') w2)))"

section \<open>Notions used to state the properties\<close>

definition quiz_names :: "session \<Rightarrow> string set" where
  \<comment> \<open>the keys of \<open>quizzes\<close>\<close>
  "quiz_names w = set (map fst (quizzes w))"

definition is_str :: "pyval \<Rightarrow> bool" where
  "is_str x = (case x of PStr s \<Rightarrow> True | _ \<Rightarrow> False)"

definition well_typed :: "question \<Rightarrow> bool" where
  \<comment> \<open>the questions of the data model: the two texts are strings, the choices a list of strings\<close>
  "well_typed q =
     (is_str (question_text q) \<and> is_str (correct_answer q)
      \<and> (case q of
            MultipleChoiceQuestion t cs c \<Rightarrow> (case cs of PList xs \<Rightarrow> list_all is_str xs | _ \<Rightarrow> False)
          | _ \<Rightarrow> True))"

definition display_lines :: "question \<Rightarrow> string list" where
  \<comment> \<open>what \<open>display\<close> writes\<close>
  "display_lines q = stdout (snd (display q \<lparr>stdin = [], stdout = []\<rparr>))"

definition feedback :: "question \<Rightarrow> string \<Rightarrow> string" where
  \<comment> \<open>the line a quiz answers with: correct, or wrong with the correct answer\<close>
  "feedback q a =
     (if is_correct q a = Inr True then ''Correct!''
      else ''Wrong! The correct answer was: '' @ py_str (correct_answer q))"

fun transcript :: "nat \<Rightarrow> question list \<Rightarrow> string list \<Rightarrow> string list" where
  \<comment> \<open>the output of asking the questions in order from number \<open>idx\<close>, each with its answer\<close>
  "transcript idx (q # qs) (a # as) =
     [CHR 0x0A # ''Question '' @ str_of_nat idx @ '':''] @ display_lines q
       @ [''Your answer: '', feedback q a] @ transcript (Suc idx) qs as"
| "transcript idx qs as = []"

definition correct_count :: "question list \<Rightarrow> string list \<Rightarrow> nat" where
  \<comment> \<open>the number of positions at which the answer is graded correct\<close>
  "correct_count qs as = length (filter (\<lambda>(q, a). is_correct q a = Inr True) (zip qs as))"








section \<open>Properties of the question classes\<close>





















text \<open>
  Claim C2. For every question \<open>q\<close> of any of the three classes, \<open>create_question\<close> applied to
  \<open>q.to_dict()\<close> gives back a question of the same class with the same attributes: it
  displays the same text (choice labels included) and grades every answer as \<open>q\<close> does.
\<close>

theorem to_dict_create_question:
  "create_question (to_dict q) = Inr q
   \<and> (case create_question (to_dict q) of
        Inl e \<Rightarrow> False
      | Inr q' \<Rightarrow> display q' w = display q w \<and> is_correct q' a = is_correct q a)"
  by (cases q)
     (simp_all add: create_question_def Question_from_dict_def MultipleChoiceQuestion_from_dict_def
        TrueFalseQuestion_from_dict_def getitem_def dict_getitem_def and_then_def)

theorem to_dict_create_question_witness:
  "create_question (to_dict (MultipleChoiceQuestion (PStr ''Capital of France?'')
       (PList [PStr ''Paris'', PStr ''London'', PStr ''Rome'']) (PStr ''Paris'')))
   = Inr (MultipleChoiceQuestion (PStr ''Capital of France?'')
       (PList [PStr ''Paris'', PStr ''London'', PStr ''Rome'']) (PStr ''Paris''))"
  using to_dict_create_question [of "MultipleChoiceQuestion (PStr ''Capital of France?'')
       (PList [PStr ''Paris'', PStr ''London'', PStr ''Rome'']) (PStr ''Paris'')"
       "\<lparr>stdin = [], stdout = []\<rparr>" "''1''"]
  by simp

text \<open>
  Claim C7. \<open>create_question\<close> dispatches on the value under the key \<open>type\<close>: \<open>MultipleChoice\<close>
  and \<open>TrueFalse\<close> build the class of that name, every other value builds a plain \<open>Question\<close>
  instead of failing, and a record that lacks \<open>type\<close> or a key its class reads fails with the
  \<open>KeyError\<close> of the first key missing.
\<close>

theorem create_question_dispatch:
  "(map_of r ''type'' = Some (PStr ''MultipleChoice'') \<and> map_of r ''question_text'' = Some t
      \<and> map_of r ''choices'' = Some cs \<and> map_of r ''correct_answer'' = Some c
     \<longrightarrow> create_question (PDict r) = Inr (MultipleChoiceQuestion t cs c))
   \<and> (map_of r ''type'' = Some (PStr ''TrueFalse'') \<and> map_of r ''question_text'' = Some t
      \<and> map_of r ''correct_answer'' = Some c
     \<longrightarrow> create_question (PDict r) = Inr (TrueFalseQuestion t c))
   \<and> (map_of r ''type'' = Some ty \<and> ty \<noteq> PStr ''MultipleChoice'' \<and> ty \<noteq> PStr ''TrueFalse''
      \<and> map_of r ''question_text'' = Some t \<and> map_of r ''correct_answer'' = Some c
     \<longrightarrow> create_question (PDict r) = Inr (Question t c))
   \<and> (map_of r ''type'' = None
     \<longrightarrow> create_question (PDict r) = Inl (KeyError (PStr ''type'')))
   \<and> (map_of r ''type'' = Some ty \<and> map_of r ''question_text'' = None
     \<longrightarrow> create_question (PDict r) = Inl (KeyError (PStr ''question_text'')))
   \<and> (map_of r ''type'' = Some (PStr ''MultipleChoice'') \<and> map_of r ''question_text'' = Some t
      \<and> map_of r ''choices'' = None
     \<longrightarrow> create_question (PDict r) = Inl (KeyError (PStr ''choices'')))
   \<and> (map_of r ''type'' = Some ty \<and> map_of r ''question_text'' = Some t
      \<and> (ty = PStr ''MultipleChoice'' \<longrightarrow> map_of r ''choices'' = Some cs)
      \<and> map_of r ''correct_answer'' = None
     \<longrightarrow> create_question (PDict r) = Inl (KeyError (PStr ''correct_answer'')))"
  by (simp add: create_question_def Question_from_dict_def MultipleChoiceQuestion_from_dict_def
        TrueFalseQuestion_from_dict_def getitem_def dict_getitem_def and_then_def)

theorem create_question_dispatch_witness:
  "create_question (PDict [(''type'', PStr ''MultipleChoice''), (''question_text'', PStr ''Pick''),
      (''choices'', PList [PStr ''a'', PStr ''b'']), (''correct_answer'', PStr ''b'')])
   = Inr (MultipleChoiceQuestion (PStr ''Pick'') (PList [PStr ''a'', PStr ''b'']) (PStr ''b''))
   \<and> create_question (PDict [(''type'', PStr ''TrueFalse''), (''question_text'', PStr ''Wet?''),
      (''correct_answer'', PStr ''True'')])
   = Inr (TrueFalseQuestion (PStr ''Wet?'') (PStr ''True''))
   \<and> create_question (PDict [(''type'', PStr ''Essay''), (''question_text'', PStr ''Why?''),
      (''correct_answer'', PStr ''because'')])
   = Inr (Question (PStr ''Why?'') (PStr ''because''))
   \<and> create_question (PDict [(''question_text'', PStr ''Why?''), (''correct_answer'', PStr ''x'')])
   = Inl (KeyError (PStr ''type''))
   \<and> create_question (PDict [(''type'', PStr ''Question''), (''correct_answer'', PStr ''x'')])
   = Inl (KeyError (PStr ''question_text''))
   \<and> create_question (PDict [(''type'', PStr ''MultipleChoice''), (''question_text'', PStr ''Pick''),
      (''correct_answer'', PStr ''b'')])
   = Inl (KeyError (PStr ''choices''))
   \<and> create_question (PDict [(''type'', PStr ''TrueFalse''), (''question_text'', PStr ''Wet?'')])
   = Inl (KeyError (PStr ''correct_answer''))"
  using
    create_question_dispatch [of "[(''type'', PStr ''MultipleChoice''), (''question_text'', PStr ''Pick''),
      (''choices'', PList [PStr ''a'', PStr ''b'']), (''correct_answer'', PStr ''b'')]"
      "PStr ''Pick''" "PList [PStr ''a'', PStr ''b'']" "PStr ''b''"]
    create_question_dispatch [of "[(''type'', PStr ''TrueFalse''), (''question_text'', PStr ''Wet?''),
      (''correct_answer'', PStr ''True'')]" "PStr ''Wet?''" _ "PStr ''True''"]
    create_question_dispatch [of "[(''type'', PStr ''Essay''), (''question_text'', PStr ''Why?''),
      (''correct_answer'', PStr ''because'')]" "PStr ''Why?''" _ "PStr ''because''" "PStr ''Essay''"]
    create_question_dispatch [of "[(''question_text'', PStr ''Why?''), (''correct_answer'', PStr ''x'')]"]
    create_question_dispatch [of "[(''type'', PStr ''Question''), (''correct_answer'', PStr ''x'')]"
      _ _ _ "PStr ''Question''"]
    create_question_dispatch [of "[(''type'', PStr ''MultipleChoice''), (''question_text'', PStr ''Pick''),
      (''correct_answer'', PStr ''b'')]" "PStr ''Pick''"]
    create_question_dispatch [of "[(''type'', PStr ''TrueFalse''), (''question_text'', PStr ''Wet?'')]"
      "PStr ''Wet?''" _ _ "PStr ''TrueFalse''"]
  by simp

text \<open>
  Claim C1, at an answer outside the range of the choices. The choices are shown numbered from
  1, and the answer \<open>0\<close> selects none of them; \<open>is_correct\<close> computes the index \<open>-1\<close>, which
  Python reads as the last element of the list, so the answer \<open>0\<close> is graded as the last choice.
  With the correct answer last, \<open>is_correct("0")\<close> is true. The answers of the specification's
  example are graded as it says.
\<close>

theorem MultipleChoiceQuestion_is_correct_zero:
  "is_correct (MultipleChoiceQuestion (PStr ''Capital of Italy?'')
      (PList [PStr ''Paris'', PStr ''London'', PStr ''Rome'']) (PStr ''Rome'')) ''0'' = Inr True
   \<and> map (is_correct (MultipleChoiceQuestion (PStr ''Capital of France?'')
      (PList [PStr ''Paris'', PStr ''London'', PStr ''Rome'']) (PStr ''Paris'')))
      [''1'', ''2'', ''9'', ''abc''] = [Inr True, Inr False, Inr False, Inr False]"
  by code_simp

section \<open>Properties of QuizManager\<close>

lemma dict_setitem_new: "k \<notin> set (map fst d) \<Longrightarrow> dict_setitem d k v = d @ [(k, v)]"
  by (induction d) auto

lemma keys_dict_setitem:
  "map fst (dict_setitem d k v) = (if k \<in> set (map fst d) then map fst d else map fst d @ [k])"
proof (induction d)
  case Nil
  show ?case by simp
next
  case (Cons kv d)
  then show ?case by (cases kv) force
qed

lemma set_keys_dict_setitem: "fst ` set (dict_setitem d k v) = insert k (fst ` set d)"
proof -
  have "set (map fst (dict_setitem d k v)) = insert k (set (map fst d))"
    unfolding keys_dict_setitem by (cases "k \<in> set (map fst d)") (simp_all add: insert_absorb)
  then show ?thesis by simp
qed

lemma map_of_dict_setitem: "map_of (dict_setitem d k v) = (map_of d)(k \<mapsto> v)"
  by (induction d) (auto simp: fun_eq_iff)

lemma quizzes_print: "quizzes (print s w) = quizzes w"
  by (simp add: print_def)

lemma quizzes_prints: "quizzes (prints ss w) = quizzes w"
  by (simp add: prints_def)

lemma quizzes_input: "quizzes (snd (input p w)) = quizzes w"
  by (simp add: input_def print_def split: list.split)

lemma names_input: "quiz_names w \<subseteq> quiz_names (snd (input p w))"
  by (simp add: quiz_names_def quizzes_input)

lemma then_run_names:
  assumes "\<And>s. quiz_names s \<subseteq> quiz_names (snd (m s))"
    and "\<And>x s. quiz_names s \<subseteq> quiz_names (snd (f x s))"
  shows "quiz_names s \<subseteq> quiz_names (snd (then_run m f s))"
proof (cases "m s")
  case (Pair r s')
  have s': "quiz_names s \<subseteq> quiz_names s'"
    using assms(1) [of s] Pair by simp
  show ?thesis
  proof (cases r)
    case (Inl e)
    with Pair s' show ?thesis by (simp add: then_run_def)
  next
    case (Inr x)
    have "quiz_names s' \<subseteq> quiz_names (snd (f x s'))" by (rule assms(2))
    with Pair Inr s' show ?thesis by (auto simp add: then_run_def)
  qed
qed

lemma add_quiz_names: "quiz_names w \<subseteq> quiz_names (snd (add_quiz s w))"
  by (auto simp: add_quiz_def quiz_names_def quizzes_print set_keys_dict_setitem)

lemma display_quizzes_names: "quiz_names (snd (display_quizzes w)) = quiz_names w"
  by (simp add: display_quizzes_def quiz_names_def quizzes_print quizzes_prints Let_def)

lemma view_questions_names: "quiz_names (snd (view_questions n w)) = quiz_names w"
  by (simp add: view_questions_def quiz_names_def quizzes_print quizzes_prints Let_def split: sum.split)

lemma read_question_names: "quiz_names w \<subseteq> quiz_names (snd (read_question c w))"
proof -
  have three: "\<And>p1 p2 p3 (g :: string \<Rightarrow> string \<Rightarrow> string \<Rightarrow> question) w :: session.
    quiz_names w \<subseteq> quiz_names (snd (then_run (input p1) (\<lambda>a. then_run (input p2) (\<lambda>b. then_run (input p3)
       (\<lambda>c. Pair (Inr (Some (g a b c)))))) w))"
    by (intro then_run_names names_input) simp
  have two: "\<And>p1 p2 (g :: string \<Rightarrow> string \<Rightarrow> question) w :: session.
    quiz_names w \<subseteq> quiz_names (snd (then_run (input p1) (\<lambda>a. then_run (input p2)
       (\<lambda>b. Pair (Inr (Some (g a b))))) w))"
    by (intro then_run_names names_input) simp
  show ?thesis
    unfolding read_question_def Let_def
    using three two by (simp add: quiz_names_def quizzes_print)
qed

lemma add_question_to_quiz_names: "quiz_names w \<subseteq> quiz_names (snd (add_question_to_quiz n w))"
proof -
  have "quiz_names (prints [CHR 0x0A # ''Adding a Question:'', ''1. Multiple Choice'',
            ''2. True/False'', ''3. Basic Question''] w)
      \<subseteq> quiz_names (snd (add_question_to_quiz n w))"
    unfolding add_question_to_quiz_def Let_def
    by (intro then_run_names names_input read_question_names)
       (auto simp add: quiz_names_def quizzes_print set_keys_dict_setitem split: option.split sum.split)
  then show ?thesis by (simp add: quiz_names_def quizzes_prints)
qed

lemma remove_question_from_quiz_names:
  "quiz_names w \<subseteq> quiz_names (snd (remove_question_from_quiz n w))"
proof (cases "dict_getitem (quizzes w) n")
  case (Inl e)
  then show ?thesis by (simp add: remove_question_from_quiz_def)
next
  case (Inr qs)
  show ?thesis
  proof (cases "qs = []")
    case True
    with Inr show ?thesis by (simp add: remove_question_from_quiz_def quiz_names_def quizzes_print)
  next
    case False
    have "quiz_names (prints (map (\<lambda>(idx, question). question_line idx question)
              (enumerate1 qs)) w) \<subseteq> quiz_names (snd (remove_question_from_quiz n w))"
      using Inr False unfolding remove_question_from_quiz_def Let_def
      by (simp, intro then_run_names names_input)
         (auto simp add: quiz_names_def quizzes_print set_keys_dict_setitem split: sum.split prod.split)
    then show ?thesis by (simp add: quiz_names_def quizzes_prints)
  qed
qed

lemma edit_loop_names: "quiz_names w \<subseteq> quiz_names (snd (edit_loop n w))"
proof (induction n w rule: edit_loop.induct)
  case (1 quiz_name w)
  obtain r w1 where i: "input ''Select an option: '' (prints (edit_menu quiz_name) w) = (r, w1)"
    by (cases "input ''Select an option: '' (prints (edit_menu quiz_name) w)")
  have w1: "quiz_names w \<subseteq> quiz_names w1"
    using names_input [of "prints (edit_menu quiz_name) w" "''Select an option: ''"] i
    by (simp add: quiz_names_def quizzes_prints)
  show ?case
  proof (cases r)
    case (Inl e)
    with i w1 show ?thesis by (simp add: edit_loop.simps [of quiz_name w])
  next
    case (Inr choice)
    note IH = "1.IH" [OF i [symmetric] Inr]
    consider (a) "choice = ''1''" | (b) "choice = ''2''" | (c) "choice = ''3''" | (d) "choice = ''4''"
      | (e) "choice \<noteq> ''1''" "choice \<noteq> ''2''" "choice \<noteq> ''3''" "choice \<noteq> ''4''"
      by blast
    then show ?thesis
    proof cases
      case a
      obtain u w2 where o: "add_question_to_quiz quiz_name w1 = (u, w2)"
        by (cases "add_question_to_quiz quiz_name w1")
      have w2: "quiz_names w1 \<subseteq> quiz_names w2"
        using add_question_to_quiz_names [of w1 quiz_name] o by simp
      show ?thesis
      proof (cases u)
        case (Inl e)
        with i Inr a o w1 w2 show ?thesis by (auto simp add: edit_loop.simps [of quiz_name w])
      next
        case (Inr x)
        have "quiz_names w2 \<subseteq> quiz_names (snd (edit_loop quiz_name w2))"
          using IH(1) [OF a o [symmetric] Inr] .
        with i \<open>r = Inr choice\<close> Inr a o w1 w2 show ?thesis
          by (auto simp add: edit_loop.simps [of quiz_name w])
      qed
    next
      case b
      obtain u w2 where o: "remove_question_from_quiz quiz_name w1 = (u, w2)"
        by (cases "remove_question_from_quiz quiz_name w1")
      have w2: "quiz_names w1 \<subseteq> quiz_names w2"
        using remove_question_from_quiz_names [of w1 quiz_name] o by simp
      have ne: "choice \<noteq> ''1''" using b by simp
      show ?thesis
      proof (cases u)
        case (Inl e)
        with i Inr b o w1 w2 show ?thesis by (auto simp add: edit_loop.simps [of quiz_name w])
      next
        case (Inr x)
        have "quiz_names w2 \<subseteq> quiz_names (snd (edit_loop quiz_name w2))"
          using IH(2) [OF ne b o [symmetric] Inr] .
        with i \<open>r = Inr choice\<close> Inr b o w1 w2 show ?thesis
          by (auto simp add: edit_loop.simps [of quiz_name w])
      qed
    next
      case c
      obtain u w2 where o: "view_questions quiz_name w1 = (u, w2)"
        by (cases "view_questions quiz_name w1")
      have w2: "quiz_names w1 \<subseteq> quiz_names w2"
        using view_questions_names [of quiz_name w1] o by simp
      have ne: "choice \<noteq> ''1''" "choice \<noteq> ''2''" using c by simp_all
      show ?thesis
      proof (cases u)
        case (Inl e)
        with i Inr c o w1 w2 show ?thesis by (auto simp add: edit_loop.simps [of quiz_name w])
      next
        case (Inr x)
        have "quiz_names w2 \<subseteq> quiz_names (snd (edit_loop quiz_name w2))"
          using IH(3) [OF ne c o [symmetric] Inr] .
        with i \<open>r = Inr choice\<close> Inr c o w1 w2 show ?thesis
          by (auto simp add: edit_loop.simps [of quiz_name w])
      qed
    next
      case d
      with i Inr w1 show ?thesis by (simp add: edit_loop.simps [of quiz_name w])
    next
      case e
      have "quiz_names (print ''Invalid option!'' w1)
          \<subseteq> quiz_names (snd (edit_loop quiz_name (print ''Invalid option!'' w1)))"
        using IH(4) [OF e] .
      then have "quiz_names w1 \<subseteq> quiz_names (snd (edit_loop quiz_name (print ''Invalid option!'' w1)))"
        by (simp add: quiz_names_def quizzes_print)
      with i Inr e w1 show ?thesis by (auto simp add: edit_loop.simps [of quiz_name w])
    qed
  qed
qed

lemma edit_quiz_names: "quiz_names w \<subseteq> quiz_names (snd (edit_quiz n w))"
  using edit_loop_names [of w n] by (simp add: edit_quiz_def quiz_names_def quizzes_print)

text \<open>
  Claim C9. Whatever the state and the input, after each of \<open>add_quiz\<close>, \<open>edit_quiz\<close>,
  \<open>add_question_to_quiz\<close>, \<open>remove_question_from_quiz\<close>, \<open>view_questions\<close> and
  \<open>display_quizzes\<close> every quiz name that was a key of \<open>quizzes\<close> before is still one, also
  when the operation ends with an error: no operation deletes a quiz.
\<close>

theorem quiz_names_kept:
  "quiz_names w \<subseteq> quiz_names (snd (add_quiz s w))
   \<and> quiz_names w \<subseteq> quiz_names (snd (edit_quiz s w))
   \<and> quiz_names w \<subseteq> quiz_names (snd (add_question_to_quiz s w))
   \<and> quiz_names w \<subseteq> quiz_names (snd (remove_question_from_quiz s w))
   \<and> quiz_names w \<subseteq> quiz_names (snd (view_questions s w))
   \<and> quiz_names w \<subseteq> quiz_names (snd (display_quizzes w))"
  using add_quiz_names [of w s] edit_quiz_names [of w s] add_question_to_quiz_names [of w s]
    remove_question_from_quiz_names [of w s]
  by (simp add: view_questions_names display_quizzes_names)

theorem quiz_names_kept_witness:
  "{''Math'', ''Geo''} \<subseteq> quiz_names (snd (add_quiz ''Art''
      \<lparr>stdin = [], stdout = [], quizzes = [(''Math'', [Question (PStr ''2+2?'') (PStr ''4'')]), (''Geo'', [])]\<rparr>))
   \<and> {''Math'', ''Geo''} \<subseteq> quiz_names (snd (edit_quiz ''Math''
      \<lparr>stdin = [''2'', ''1'', ''4''], stdout = [],
         quizzes = [(''Math'', [Question (PStr ''2+2?'') (PStr ''4'')]), (''Geo'', [])]\<rparr>))
   \<and> {''Math'', ''Geo''} \<subseteq> quiz_names (snd (remove_question_from_quiz ''Math''
      \<lparr>stdin = [''1''], stdout = [],
         quizzes = [(''Math'', [Question (PStr ''2+2?'') (PStr ''4'')]), (''Geo'', [])]\<rparr>))"
  using
    quiz_names_kept [of "\<lparr>stdin = [], stdout = [],
      quizzes = [(''Math'', [Question (PStr ''2+2?'') (PStr ''4'')]), (''Geo'', [])]\<rparr>" "''Art''"]
    quiz_names_kept [of "\<lparr>stdin = [''2'', ''1'', ''4''], stdout = [],
      quizzes = [(''Math'', [Question (PStr ''2+2?'') (PStr ''4'')]), (''Geo'', [])]\<rparr>" "''Math''"]
    quiz_names_kept [of "\<lparr>stdin = [''1''], stdout = [],
      quizzes = [(''Math'', [Question (PStr ''2+2?'') (PStr ''4'')]), (''Geo'', [])]\<rparr>" "''Math''"]
  by (simp add: quiz_names_def)

text \<open>
  Claim C6. \<open>add_quiz(s)\<close> on a state without the name \<open>s\<close> adds \<open>s\<close> with an empty question
  list; on a state that has \<open>s\<close> it prints that the quiz already exists and leaves \<open>quizzes\<close> as
  it is. So after two calls in a row from a state without \<open>s\<close> there is exactly one quiz named
  \<open>s\<close>, its list is empty, and the second call changed nothing but the output.
\<close>

theorem add_quiz_twice:
  "(\<not> dict_contains (quizzes w) s \<longrightarrow>
      add_quiz s w = (Inr (), print (''Quiz '' @ [CHR 0x27] @ s @ [CHR 0x27] @ '' created.'')
                                (w\<lparr>quizzes := quizzes w @ [(s, [])]\<rparr>)))
   \<and> (dict_contains (quizzes w) s \<longrightarrow>
      add_quiz s w = (Inr (), print ''Quiz already exists!'' w))
   \<and> (\<not> dict_contains (quizzes w) s \<longrightarrow>
      add_quiz s (snd (add_quiz s w)) = (Inr (), print ''Quiz already exists!'' (snd (add_quiz s w)))
      \<and> quizzes (snd (add_quiz s (snd (add_quiz s w)))) = quizzes w @ [(s, [])]
      \<and> length (filter (\<lambda>kv. fst kv = s) (quizzes (snd (add_quiz s (snd (add_quiz s w)))))) = 1
      \<and> map_of (quizzes (snd (add_quiz s (snd (add_quiz s w))))) s = Some [])"
proof -
  have new: "add_quiz s w = (Inr (), print (''Quiz '' @ [CHR 0x27] @ s @ [CHR 0x27] @ '' created.'')
                                (w\<lparr>quizzes := quizzes w @ [(s, [])]\<rparr>))"
    if "\<not> dict_contains (quizzes w) s"
    using that by (simp add: add_quiz_def dict_contains_def dict_setitem_new)
  have old: "add_quiz s v = (Inr (), print ''Quiz already exists!'' v)"
    if "dict_contains (quizzes v) s" for v
    using that by (simp add: add_quiz_def)
  have twice: "add_quiz s (snd (add_quiz s w)) = (Inr (), print ''Quiz already exists!'' (snd (add_quiz s w)))
      \<and> quizzes (snd (add_quiz s (snd (add_quiz s w)))) = quizzes w @ [(s, [])]
      \<and> length (filter (\<lambda>kv. fst kv = s) (quizzes (snd (add_quiz s (snd (add_quiz s w)))))) = 1
      \<and> map_of (quizzes (snd (add_quiz s (snd (add_quiz s w))))) s = Some []"
    if n: "\<not> dict_contains (quizzes w) s"
  proof -
    have q1: "quizzes (snd (add_quiz s w)) = quizzes w @ [(s, [])]"
      using new [OF n] by (simp add: quizzes_print)
    then have c1: "dict_contains (quizzes (snd (add_quiz s w))) s"
      by (simp add: dict_contains_def)
    have none: "filter (\<lambda>kv. fst kv = s) (quizzes w) = []"
      using n by (auto simp: dict_contains_def filter_empty_conv)
    have m: "map_of (quizzes w) s = None"
      using n by (simp add: dict_contains_def map_of_eq_None_iff)
    show ?thesis
      using old [OF c1] q1 none m by (simp add: quizzes_print map_add_def)
  qed
  show ?thesis using new old [of w] twice by blast
qed

theorem add_quiz_twice_witness:
  "snd (add_quiz ''Geo'' (snd (add_quiz ''Geo''
      \<lparr>stdin = [], stdout = [], quizzes = [(''Math'', [Question (PStr ''2+2?'') (PStr ''4'')])]\<rparr>)))
   = \<lparr>stdin = [],
      stdout = [''Quiz '' @ [CHR 0x27] @ ''Geo'' @ [CHR 0x27] @ '' created.'', ''Quiz already exists!''],
      quizzes = [(''Math'', [Question (PStr ''2+2?'') (PStr ''4'')]), (''Geo'', [])]\<rparr>"
proof -
  let ?w = "\<lparr>stdin = [], stdout = [],
      quizzes = [(''Math'', [Question (PStr ''2+2?'') (PStr ''4'')])]\<rparr>"
  have n: "\<not> dict_contains (quizzes ?w) ''Geo''"
    by (simp add: dict_contains_def)
  have first: "add_quiz ''Geo'' ?w
      = (Inr (), print (''Quiz '' @ [CHR 0x27] @ ''Geo'' @ [CHR 0x27] @ '' created.'')
                   (?w\<lparr>quizzes := quizzes ?w @ [(''Geo'', [])]\<rparr>))"
    using add_quiz_twice [of ?w "''Geo''"] n by blast
  have second: "add_quiz ''Geo'' (snd (add_quiz ''Geo'' ?w))
      = (Inr (), print ''Quiz already exists!'' (snd (add_quiz ''Geo'' ?w)))"
    using add_quiz_twice [of ?w "''Geo''"] n by blast
  show ?thesis
    unfolding second unfolding first by (simp add: print_def)
qed

lemma py_int_error: "py_int s = Inl e \<Longrightarrow> e = ValueError"
  by (auto simp: py_int_def split: list.splits if_splits option.splits)

lemma list_pop_in_range:
  "1 \<le> i \<Longrightarrow> i \<le> int (length xs) \<Longrightarrow>
   list_pop xs (i - 1) = Inr (xs ! nat (i - 1), take (nat (i - 1)) xs @ drop (nat i) xs)"
proof -
  assume a: "1 \<le> i" "i \<le> int (length xs)"
  then have "norm_index (length xs) (i - 1) = Some (nat (i - 1))"
    by (simp add: norm_index_def)
  moreover have "Suc (nat (i - 1)) = nat i" using a by simp
  ultimately show ?thesis by (simp add: list_pop_def)
qed

text \<open>
  Claim C5, as the code has it. For a quiz with the question list \<open>qs\<close>: on an empty list
  \<open>remove_question_from_quiz\<close> prints that there is nothing to remove and reads no input. On a
  list that is not empty it lists the questions and reads one line. If the line is a number \<open>i\<close>
  with \<open>1 \<le> i \<le> length qs\<close>, the question at position \<open>i\<close> is removed and the others keep
  their order, and the text of the removed question is printed; if the number is outside that
  range, or the line is no number, a message says so and \<open>quizzes\<close> is left as it is. On every
  path the method returns \<open>None\<close>: the removed question is printed, not returned.
\<close>

theorem remove_question_from_quiz_cases:
  "(dict_getitem (quizzes w) name = Inr [] \<longrightarrow>
      remove_question_from_quiz name w = (Inr None, print ''No questions to remove!'' w))
   \<and> (dict_getitem (quizzes w) name = Inr qs \<and> qs \<noteq> [] \<and> stdin w = line # rest
       \<and> py_int line = Inr i \<and> 1 \<le> i \<and> i \<le> int (length qs) \<longrightarrow>
      remove_question_from_quiz name w =
        (Inr None,
         w\<lparr>stdin := rest,
           stdout := stdout w @ map (\<lambda>(idx, question). question_line idx question) (enumerate1 qs)
                     @ [''Enter question number to remove: '',
                        ''Removed question: '' @ py_str (question_text (qs ! nat (i - 1)))],
           quizzes := dict_setitem (quizzes w) name (take (nat (i - 1)) qs @ drop (nat i) qs)\<rparr>))
   \<and> (dict_getitem (quizzes w) name = Inr qs \<and> qs \<noteq> [] \<and> stdin w = line # rest
       \<and> py_int line = Inr i \<and> (i < 1 \<or> int (length qs) < i) \<longrightarrow>
      remove_question_from_quiz name w =
        (Inr None,
         w\<lparr>stdin := rest,
           stdout := stdout w @ map (\<lambda>(idx, question). question_line idx question) (enumerate1 qs)
                     @ [''Enter question number to remove: '', ''Invalid question number!'']\<rparr>))
   \<and> (dict_getitem (quizzes w) name = Inr qs \<and> qs \<noteq> [] \<and> stdin w = line # rest
       \<and> py_int line = Inl e \<longrightarrow>
      remove_question_from_quiz name w =
        (Inr None,
         w\<lparr>stdin := rest,
           stdout := stdout w @ map (\<lambda>(idx, question). question_line idx question) (enumerate1 qs)
                     @ [''Enter question number to remove: '', ''Invalid input!'']\<rparr>))"
proof (intro conjI impI)
  assume "dict_getitem (quizzes w) name = Inr []"
  then show "remove_question_from_quiz name w = (Inr None, print ''No questions to remove!'' w)"
    by (simp add: remove_question_from_quiz_def)
next
  assume a: "dict_getitem (quizzes w) name = Inr qs \<and> qs \<noteq> [] \<and> stdin w = line # rest
       \<and> py_int line = Inr i \<and> 1 \<le> i \<and> i \<le> int (length qs)"
  then have pop: "list_pop qs (i - 1) = Inr (qs ! nat (i - 1), take (nat (i - 1)) qs @ drop (nat i) qs)"
    using list_pop_in_range [of i qs] by simp
  show "remove_question_from_quiz name w =
        (Inr None,
         w\<lparr>stdin := rest,
           stdout := stdout w @ map (\<lambda>(idx, question). question_line idx question) (enumerate1 qs)
                     @ [''Enter question number to remove: '',
                        ''Removed question: '' @ py_str (question_text (qs ! nat (i - 1)))],
           quizzes := dict_setitem (quizzes w) name (take (nat (i - 1)) qs @ drop (nat i) qs)\<rparr>)"
    using a pop
    by (simp add: remove_question_from_quiz_def then_run_def input_def print_def prints_def)
next
  assume a: "dict_getitem (quizzes w) name = Inr qs \<and> qs \<noteq> [] \<and> stdin w = line # rest
       \<and> py_int line = Inr i \<and> (i < 1 \<or> int (length qs) < i)"
  then show "remove_question_from_quiz name w =
        (Inr None,
         w\<lparr>stdin := rest,
           stdout := stdout w @ map (\<lambda>(idx, question). question_line idx question) (enumerate1 qs)
                     @ [''Enter question number to remove: '', ''Invalid question number!'']\<rparr>)"
    by (auto simp add: remove_question_from_quiz_def then_run_def input_def print_def prints_def)
next
  assume a: "dict_getitem (quizzes w) name = Inr qs \<and> qs \<noteq> [] \<and> stdin w = line # rest
       \<and> py_int line = Inl e"
  then have "e = ValueError" using py_int_error by blast
  with a show "remove_question_from_quiz name w =
        (Inr None,
         w\<lparr>stdin := rest,
           stdout := stdout w @ map (\<lambda>(idx, question). question_line idx question) (enumerate1 qs)
                     @ [''Enter question number to remove: '', ''Invalid input!'']\<rparr>)"
    by (simp add: remove_question_from_quiz_def then_run_def input_def print_def prints_def)
qed

theorem remove_question_from_quiz_cases_witness:
  "remove_question_from_quiz ''Math''
      \<lparr>stdin = ['' 2 '', ''4''], stdout = [],
         quizzes = [(''Math'', [Question (PStr ''2+2?'') (PStr ''4''), Question (PStr ''3+3?'') (PStr ''6''),
                               Question (PStr ''1+1?'') (PStr ''2'')]), (''Geo'', [])]\<rparr>
   = (Inr None,
      \<lparr>stdin = [''4''],
         stdout = [''1. 2+2?'', ''2. 3+3?'', ''3. 1+1?'', ''Enter question number to remove: '',
                   ''Removed question: 3+3?''],
         quizzes = [(''Math'', [Question (PStr ''2+2?'') (PStr ''4''), Question (PStr ''1+1?'') (PStr ''2'')]),
                    (''Geo'', [])]\<rparr>)
   \<and> remove_question_from_quiz ''Math''
      \<lparr>stdin = [''0''], stdout = [], quizzes = [(''Math'', [Question (PStr ''2+2?'') (PStr ''4'')])]\<rparr>
   = (Inr None,
      \<lparr>stdin = [],
         stdout = [''1. 2+2?'', ''Enter question number to remove: '', ''Invalid question number!''],
         quizzes = [(''Math'', [Question (PStr ''2+2?'') (PStr ''4'')])]\<rparr>)
   \<and> remove_question_from_quiz ''Math''
      \<lparr>stdin = [''one''], stdout = [], quizzes = [(''Math'', [Question (PStr ''2+2?'') (PStr ''4'')])]\<rparr>
   = (Inr None,
      \<lparr>stdin = [],
         stdout = [''1. 2+2?'', ''Enter question number to remove: '', ''Invalid input!''],
         quizzes = [(''Math'', [Question (PStr ''2+2?'') (PStr ''4'')])]\<rparr>)
   \<and> remove_question_from_quiz ''Geo'' \<lparr>stdin = [''1''], stdout = [], quizzes = [(''Geo'', [])]\<rparr>
   = (Inr None, \<lparr>stdin = [''1''], stdout = [''No questions to remove!''], quizzes = [(''Geo'', [])]\<rparr>)"
proof -
  let ?q1 = "Question (PStr ''2+2?'') (PStr ''4'')"
  let ?q2 = "Question (PStr ''3+3?'') (PStr ''6'')"
  let ?q3 = "Question (PStr ''1+1?'') (PStr ''2'')"
  let ?w = "\<lparr>stdin = ['' 2 '', ''4''], stdout = [], quizzes = [(''Math'', [?q1, ?q2, ?q3]), (''Geo'', [])]\<rparr>"
  let ?v = "\<lambda>l. \<lparr>stdin = [l], stdout = [], quizzes = [(''Math'', [?q1])]\<rparr>"
  let ?u = "\<lparr>stdin = [''1''], stdout = [], quizzes = [(''Geo'', [])]\<rparr>"
  have l3: "map (\<lambda>(idx, question). question_line idx question) (enumerate1 [?q1, ?q2, ?q3])
      = [''1. 2+2?'', ''2. 3+3?'', ''3. 1+1?'']"
    by code_simp
  have l1: "map (\<lambda>(idx, question). question_line idx question) (enumerate1 [?q1]) = [''1. 2+2?'']"
    by code_simp
  have p2: "py_int '' 2 '' = Inr 2" by code_simp
  have p0: "py_int ''0'' = Inr 0" by code_simp
  have pe: "py_int ''one'' = Inl ValueError" by code_simp
  have a: "remove_question_from_quiz ''Math'' ?w
      = (Inr None,
         \<lparr>stdin = [''4''],
            stdout = [''1. 2+2?'', ''2. 3+3?'', ''3. 1+1?'', ''Enter question number to remove: '',
                      ''Removed question: 3+3?''],
            quizzes = [(''Math'', [?q1, ?q3]), (''Geo'', [])]\<rparr>)"
    using remove_question_from_quiz_cases [of ?w "''Math''" "[?q1, ?q2, ?q3]" "'' 2 ''" "[''4'']" 2] p2
    by (simp add: dict_getitem_def l3 py_str_def)
  have b: "remove_question_from_quiz ''Math'' (?v ''0'')
      = (Inr None,
         \<lparr>stdin = [],
            stdout = [''1. 2+2?'', ''Enter question number to remove: '', ''Invalid question number!''],
            quizzes = [(''Math'', [?q1])]\<rparr>)"
    using remove_question_from_quiz_cases [of "?v ''0''" "''Math''" "[?q1]" "''0''" "[]" 0] p0
    by (simp add: dict_getitem_def l1)
  have c: "remove_question_from_quiz ''Math'' (?v ''one'')
      = (Inr None,
         \<lparr>stdin = [],
            stdout = [''1. 2+2?'', ''Enter question number to remove: '', ''Invalid input!''],
            quizzes = [(''Math'', [?q1])]\<rparr>)"
    using remove_question_from_quiz_cases [of "?v ''one''" "''Math''" "[?q1]" "''one''" "[]" _ ValueError] pe
    by (simp add: dict_getitem_def l1)
  have d: "remove_question_from_quiz ''Geo'' ?u
      = (Inr None, \<lparr>stdin = [''1''], stdout = [''No questions to remove!''], quizzes = [(''Geo'', [])]\<rparr>)"
    using remove_question_from_quiz_cases [of ?u "''Geo''"]
    by (simp add: dict_getitem_def print_def)
  show ?thesis using a b c d by simp
qed

text \<open>
  Claim C5 as stated says that the removed question is returned. With one question and the
  input \<open>1\<close> the question is removed and the method returns \<open>None\<close>.
\<close>

theorem remove_question_from_quiz_returns_None:
  "fst (remove_question_from_quiz ''Math''
      \<lparr>stdin = [''1''], stdout = [],
         quizzes = [(''Math'', [Question (PStr ''2+2?'') (PStr ''4'')])]\<rparr>) = Inr None
   \<and> fst (remove_question_from_quiz ''Math''
      \<lparr>stdin = [''1''], stdout = [],
         quizzes = [(''Math'', [Question (PStr ''2+2?'') (PStr ''4'')])]\<rparr>)
     \<noteq> Inr (Some (Question (PStr ''2+2?'') (PStr ''4'')))"
  by code_simp

section \<open>Properties of loading\<close>

lemma getitem_PStr_error: "getitem x (PStr k) = Inl e \<Longrightarrow> e = TypeError \<or> e = KeyError (PStr k)"
  by (auto simp: getitem_def dict_getitem_def split: pyval.splits option.splits)

lemma and_then_Inl: "and_then r f = Inl e \<Longrightarrow> r = Inl e \<or> (\<exists>x. r = Inr x \<and> f x = Inl e)"
  by (cases r) (simp_all add: and_then_def)

lemma create_question_error:
  "create_question r = Inl e \<Longrightarrow> e = TypeError \<or> (\<exists>k. e = KeyError (PStr k))"
  unfolding create_question_def Question_from_dict_def MultipleChoiceQuestion_from_dict_def
    TrueFalseQuestion_from_dict_def
  by (auto dest!: and_then_Inl split: if_splits) (blast dest: getitem_PStr_error)+

lemma map_raising_Inr: "map f xs = map Inr ys \<Longrightarrow> map_raising f xs = Inr ys"
  by (induction xs arbitrary: ys) (auto simp: and_then_def)

lemma map_raising_Inl:
  "map f xs = map Inr ys \<Longrightarrow> f x = Inl e \<Longrightarrow> map_raising f (xs @ x # zs) = Inl e"
  by (induction xs arbitrary: ys) (auto simp: and_then_def)

lemma load_items_append:
  assumes "list_all2 (\<lambda>kv res. fst res = fst kv
              \<and> (\<exists>rs. snd kv = PList rs \<and> map create_question rs = map Inr (snd res))) kvs qz"
    and "distinct (map fst kvs)"
    and "set (map fst kvs) \<inter> set (map fst acc) = {}"
  shows "load_items (kvs @ others) acc = load_items others (acc @ qz)"
  using assms
proof (induction kvs qz arbitrary: acc rule: list_all2_induct)
  case Nil
  show ?case by simp
next
  case (Cons kv kvs res qz)
  obtain name v where kv: "kv = (name, v)" by (cases kv)
  obtain rs where v: "v = PList rs" and rs: "map create_question rs = map Inr (snd res)"
    and name: "fst res = name"
    using Cons.hyps(1) kv by auto
  have new: "name \<notin> set (map fst acc)" using Cons.prems kv by auto
  have cq: "create_questions v = Inr (snd res)"
    using v map_raising_Inr [OF rs] by (simp add: create_questions_def py_iter_def and_then_def)
  have step: "dict_setitem acc name (snd res) = acc @ [res]"
    using new name by (induction acc) (auto simp: prod_eq_iff)
  have "load_items (kvs @ others) (acc @ [res]) = load_items others ((acc @ [res]) @ qz)"
  proof (rule Cons.IH)
    show "distinct (map fst kvs)" using Cons.prems by simp
    show "set (map fst kvs) \<inter> set (map fst (acc @ [res])) = {}"
      using Cons.prems kv name by auto
  qed
  then show ?case using kv cq step by (simp add: and_then_def)
qed

lemma load_items_ok:
  assumes "list_all2 (\<lambda>kv res. fst res = fst kv
              \<and> (\<exists>rs. snd kv = PList rs \<and> map create_question rs = map Inr (snd res))) kvs qz"
    and "distinct (map fst kvs)"
  shows "load_items kvs [] = Inr qz"
  using load_items_append [OF assms, of "[]" "[]"] by simp

lemma load_items_fail:
  assumes "list_all2 (\<lambda>kv res. fst res = fst kv
              \<and> (\<exists>rs. snd kv = PList rs \<and> map create_question rs = map Inr (snd res))) pre qz"
    and "distinct (map fst pre)"
    and "map create_question rs1 = map Inr qs1"
    and "create_question r = Inl e"
  shows "load_items (pre @ (name, PList (rs1 @ r # rs2)) # post) [] = Inl e"
proof -
  have "create_questions (PList (rs1 @ r # rs2)) = Inl e"
    using map_raising_Inl [OF assms(3) assms(4)]
    by (simp add: create_questions_def py_iter_def and_then_def)
  then have "load_items ((name, PList (rs1 @ r # rs2)) # post) ([] @ qz) = Inl e"
    by (simp add: and_then_def)
  then show ?thesis
    using load_items_append [OF assms(1) assms(2), of "[]" "(name, PList (rs1 @ r # rs2)) # post"]
    by simp
qed

text \<open>
  Claim C3, as the code has it. \<open>load_quizzes\<close> gives the empty dict when the file is missing
  (\<open>FileNotFoundError\<close>) or is not JSON (\<open>JSONDecodeError\<close>). When the file holds a JSON object
  whose values are lists of records that \<open>create_question\<close> accepts, it gives the dict of the
  questions \<open>create_question\<close> builds, name by name and in order. Nothing else is caught: any
  other error of reading the file, a JSON value that is not an object (\<open>AttributeError\<close>), and
  the error \<open>create_question\<close> raises on a record reach the caller.
\<close>

theorem load_quizzes_cases:
  "load_quizzes (Inl FileNotFoundError) = Inr []
   \<and> load_quizzes (Inl JSONDecodeError) = Inr []
   \<and> (distinct (map fst kvs)
       \<and> list_all2 (\<lambda>kv res. fst res = fst kv
              \<and> (\<exists>rs. snd kv = PList rs \<and> map create_question rs = map Inr (snd res))) kvs qz
      \<longrightarrow> load_quizzes (Inr (PDict kvs)) = Inr qz)
   \<and> (e \<noteq> FileNotFoundError \<and> e \<noteq> JSONDecodeError \<longrightarrow> load_quizzes (Inl e) = Inl e)
   \<and> ((\<forall>d. data \<noteq> PDict d) \<longrightarrow> load_quizzes (Inr data) = Inl AttributeError)
   \<and> (distinct (map fst pre)
       \<and> list_all2 (\<lambda>kv res. fst res = fst kv
              \<and> (\<exists>rs. snd kv = PList rs \<and> map create_question rs = map Inr (snd res))) pre qz'
       \<and> map create_question rs1 = map Inr qs1 \<and> create_question r = Inl e'
      \<longrightarrow> load_quizzes (Inr (PDict (pre @ (name, PList (rs1 @ r # rs2)) # post))) = Inl e')"
proof (intro conjI impI)
  show "load_quizzes (Inl FileNotFoundError) = Inr []"
    by (simp add: load_quizzes_def and_then_def)
  show "load_quizzes (Inl JSONDecodeError) = Inr []"
    by (simp add: load_quizzes_def and_then_def)
next
  assume "distinct (map fst kvs)
       \<and> list_all2 (\<lambda>kv res. fst res = fst kv
              \<and> (\<exists>rs. snd kv = PList rs \<and> map create_question rs = map Inr (snd res))) kvs qz"
  then have "load_items kvs [] = Inr qz" using load_items_ok by blast
  then show "load_quizzes (Inr (PDict kvs)) = Inr qz"
    by (simp add: load_quizzes_def and_then_def items_def)
next
  assume "e \<noteq> FileNotFoundError \<and> e \<noteq> JSONDecodeError"
  then show "load_quizzes (Inl e) = Inl e"
    by (simp add: load_quizzes_def and_then_def)
next
  assume "\<forall>d. data \<noteq> PDict d"
  then show "load_quizzes (Inr data) = Inl AttributeError"
    by (cases data) (simp_all add: load_quizzes_def and_then_def items_def)
next
  assume a: "distinct (map fst pre)
       \<and> list_all2 (\<lambda>kv res. fst res = fst kv
              \<and> (\<exists>rs. snd kv = PList rs \<and> map create_question rs = map Inr (snd res))) pre qz'
       \<and> map create_question rs1 = map Inr qs1 \<and> create_question r = Inl e'"
  then have "load_items (pre @ (name, PList (rs1 @ r # rs2)) # post) [] = Inl e'"
    using load_items_fail by blast
  moreover have "e' \<noteq> FileNotFoundError \<and> e' \<noteq> JSONDecodeError"
    using a create_question_error [of r e'] by auto
  ultimately show "load_quizzes (Inr (PDict (pre @ (name, PList (rs1 @ r # rs2)) # post))) = Inl e'"
    by (simp add: load_quizzes_def and_then_def items_def)
qed

theorem load_quizzes_cases_witness:
  "load_quizzes (Inr (PDict [(''Math'', PList [PDict [(''type'', PStr ''Question''),
        (''question_text'', PStr ''2+2?''), (''correct_answer'', PStr ''4'')]]), (''Geo'', PList [])]))
   = Inr [(''Math'', [Question (PStr ''2+2?'') (PStr ''4'')]), (''Geo'', [])]
   \<and> load_quizzes (Inl PermissionError) = Inl PermissionError
   \<and> load_quizzes (Inr (PStr ''quizzes'')) = Inl AttributeError
   \<and> load_quizzes (Inr (PDict [(''Math'', PList [PDict [(''type'', PStr ''Question'')]])]))
     = Inl (KeyError (PStr ''question_text''))"
proof -
  let ?r = "PDict [(''type'', PStr ''Question''), (''question_text'', PStr ''2+2?''),
                   (''correct_answer'', PStr ''4'')]"
  let ?kvs = "[(''Math'', PList [?r]), (''Geo'', PList [])]"
  let ?qz = "[(''Math'', [Question (PStr ''2+2?'') (PStr ''4'')]), (''Geo'', [])]"
  have c: "map create_question [?r] = map Inr [Question (PStr ''2+2?'') (PStr ''4'')]"
    by code_simp
  have ok: "list_all2 (\<lambda>kv res. fst res = fst kv
              \<and> (\<exists>rs. snd kv = PList rs \<and> map create_question rs = map Inr (snd res))) ?kvs ?qz"
    using c by simp
  have a: "load_quizzes (Inr (PDict ?kvs)) = Inr ?qz"
    using load_quizzes_cases [of ?kvs ?qz] ok by simp
  have b: "load_quizzes (Inl PermissionError) = Inl PermissionError"
    using load_quizzes_cases [of _ _ PermissionError] by simp
  have d: "load_quizzes (Inr (PStr ''quizzes'')) = Inl AttributeError"
    using load_quizzes_cases [of _ _ _ "PStr ''quizzes''"] by simp
  have f: "create_question (PDict [(''type'', PStr ''Question'')]) = Inl (KeyError (PStr ''question_text''))"
    by code_simp
  have g: "load_quizzes (Inr (PDict ([] @ (''Math'', PList ([] @ PDict [(''type'', PStr ''Question'')] # [])) # [])))
      = Inl (KeyError (PStr ''question_text''))"
    using load_quizzes_cases [of _ _ _ _ "[]" "[]" "[]" "[]" "PDict [(''type'', PStr ''Question'')]"
        "KeyError (PStr ''question_text'')" "''Math''" "[]" "[]"] f
    by simp
  show ?thesis using a b d g by simp
qed

text \<open>
  Claim C3 as stated says that malformed content gives the empty dict and never an error. A
  file that is valid JSON but lacks a key of a question, one whose top level is a list, and one
  whose quiz is a number each end \<open>load_quizzes\<close> with an error.
\<close>

theorem load_quizzes_raises:
  "load_quizzes (Inr (PDict [(''Geo'', PList [PDict [(''type'', PStr ''Question''),
      (''question_text'', PStr ''Capital of France?'')]])])) = Inl (KeyError (PStr ''correct_answer''))
   \<and> load_quizzes (Inr (PList [])) = Inl AttributeError
   \<and> load_quizzes (Inr (PDict [(''Geo'', PInt 5)])) = Inl TypeError"
  by code_simp

section \<open>Properties of Quiz\<close>

lemma is_str_PStr: "is_str x \<Longrightarrow> \<exists>s. x = PStr s"
  by (cases x) (simp_all add: is_str_def)

lemma list_getitem_elem: "list_getitem xs i = Inr x \<Longrightarrow> x \<in> set xs"
  by (auto simp: list_getitem_def norm_index_def Let_def split: option.splits if_splits)

lemma list_getitem_error: "list_getitem xs i = Inl e \<Longrightarrow> e = IndexError"
  by (auto simp: list_getitem_def split: option.splits)

lemma is_correct_total:
  assumes "well_typed q"
  shows "\<exists>b. is_correct q a = Inr b"
proof (cases q)
  case (Question t c)
  with assms obtain s where "c = PStr s" using is_str_PStr by (auto simp: well_typed_def)
  with Question show ?thesis
    by (simp add: Question_is_correct_def and_then_def str_strip_lower_def)
next
  case (TrueFalseQuestion t c)
  with assms obtain s where "c = PStr s" using is_str_PStr by (auto simp: well_typed_def)
  with TrueFalseQuestion show ?thesis
    by (simp add: Question_is_correct_def and_then_def str_strip_lower_def)
next
  case (MultipleChoiceQuestion t cs c)
  with assms obtain s where c: "c = PStr s" using is_str_PStr by (auto simp: well_typed_def)
  from assms MultipleChoiceQuestion obtain xs where cs: "cs = PList xs" and xs: "list_all is_str xs"
    by (auto simp: well_typed_def split: pyval.splits)
  show ?thesis
  proof (cases "py_int a")
    case (Inl e)
    then have "e = ValueError" by (rule py_int_error)
    with Inl MultipleChoiceQuestion show ?thesis
      by (auto simp add: MultipleChoiceQuestion_is_correct_def and_then_def except_ValueError_IndexError_def)
  next
    case (Inr n)
    show ?thesis
    proof (cases "list_getitem xs (n - 1)")
      case (Inl e)
      then have "e = IndexError" by (rule list_getitem_error)
      with Inl Inr MultipleChoiceQuestion cs show ?thesis
        by (auto simp add: MultipleChoiceQuestion_is_correct_def and_then_def
            except_ValueError_IndexError_def getitem_def)
    next
      case (Inr x)
      then have "x \<in> set xs" by (rule list_getitem_elem)
      with xs obtain u where "x = PStr u" using is_str_PStr by (auto simp: list_all_iff)
      with Inr \<open>py_int a = Inr n\<close> MultipleChoiceQuestion cs c show ?thesis
        by (auto simp add: MultipleChoiceQuestion_is_correct_def and_then_def
            except_ValueError_IndexError_def getitem_def str_strip_lower_def)
    qed
  qed
qed

lemma display_output:
  fixes w :: "'a io_scheme"
  shows "display q w = (fst (display q \<lparr>stdin = [], stdout = []\<rparr>), w\<lparr>stdout := stdout w @ display_lines q\<rparr>)"
  by (cases q)
     (simp_all add: display_lines_def Question_display_def MultipleChoiceQuestion_display_def
        TrueFalseQuestion_display_def print_def prints_def Let_def split: sum.split)

lemma display_well_typed:
  assumes "well_typed q"
  shows "fst (display q \<lparr>stdin = [], stdout = []\<rparr>) = Inr ()"
  using assms
  by (cases q)
     (auto simp add: well_typed_def Question_display_def MultipleChoiceQuestion_display_def
        TrueFalseQuestion_display_def py_iter_def Let_def split: pyval.splits)

lemma correct_count_Cons:
  "correct_count (q # qs) (a # as) = (if is_correct q a = Inr True then 1 else 0) + correct_count qs as"
  by (simp add: correct_count_def)

lemma start_loop_run:
  fixes w :: "'a io_scheme"
  assumes "length as = length qs" and "list_all well_typed qs" and "stdin w = as @ rest"
  shows "start_loop (zip [i ..< i + length qs] qs) self w
       = (Inr (self\<lparr>score := score self + int (correct_count qs as)\<rparr>),
          w\<lparr>stdin := rest, stdout := stdout w @ transcript i qs as\<rparr>)"
  using assms
proof (induction qs arbitrary: as i self w)
  case Nil
  then show ?case by (simp add: correct_count_def)
next
  case (Cons q qs)
  from Cons.prems(1) obtain a as' where as: "as = a # as'" and len: "length as' = length qs"
    by (cases as) auto
  have wt: "well_typed q" and wts: "list_all well_typed qs" using Cons.prems(2) by simp_all
  have z: "zip [i ..< i + length (q # qs)] (q # qs) = (i, q) # zip [Suc i ..< Suc i + length qs] qs"
  proof -
    have "[i ..< i + length (q # qs)] = i # [Suc i ..< i + length (q # qs)]"
      by (rule upt_conv_Cons) simp
    moreover have "i + length (q # qs) = Suc i + length qs" by simp
    ultimately show ?thesis by (simp only: zip_Cons_Cons)
  qed
  let ?w1 = "print (CHR 0x0A # ''Question '' @ str_of_nat i @ '':'') w"
  let ?w2 = "?w1\<lparr>stdout := stdout ?w1 @ display_lines q\<rparr>"
  have d: "display q ?w1 = (Inr (), ?w2)"
    using display_output [of q ?w1] display_well_typed [OF wt] by simp
  let ?w3 = "(print ''Your answer: '' ?w2)\<lparr>stdin := as' @ rest\<rparr>"
  have inp: "input ''Your answer: '' ?w2 = (Inr a, ?w3)"
    using Cons.prems(3) as by (simp add: input_def print_def)
  obtain b where b: "is_correct q a = Inr b" using is_correct_total [OF wt] by blast
  show ?case
  proof (cases b)
    case True
    let ?w4 = "print ''Correct!'' ?w3"
    have "stdin ?w4 = as' @ rest" by (simp add: print_def)
    from Cons.IH [OF len wts this, of "Suc i" "self\<lparr>score := score self + 1\<rparr>"]
    show ?thesis
      unfolding z using d inp b True as
      by (simp add: correct_count_Cons feedback_def print_def)
  next
    case False
    let ?w4 = "print (''Wrong! The correct answer was: '' @ py_str (correct_answer q)) ?w3"
    have "stdin ?w4 = as' @ rest" by (simp add: print_def)
    from Cons.IH [OF len wts this, of "Suc i" self]
    show ?thesis
      unfolding z using d inp b False as
      by (simp add: correct_count_Cons feedback_def print_def)
  qed
qed

text \<open>
  Claim C4. For every list \<open>qs\<close> of questions of the data model and every list of answers of
  the same length, \<open>start\<close> on a new \<open>Quiz\<close> asks the questions in their order, each under its
  number, takes the answer at the same position and grades it with \<open>is_correct\<close>, says
  \<open>Correct!\<close> or shows the correct answer, and ends with the score: the number of positions
  graded correct, over the number of questions. It reads all the answers and raises nothing.
\<close>

theorem start_score:
  "length as = length qs \<and> list_all well_typed qs \<longrightarrow>
     start (Quiz_init qs) \<lparr>stdin = as, stdout = []\<rparr>
     = (Inr \<lparr>questions = qs, score = int (correct_count qs as)\<rparr>,
        \<lparr>stdin = [],
           stdout = [''Starting the Quiz!'', replicate 30 CHR ''-''] @ transcript 1 qs as
                    @ [replicate 30 CHR ''-'',
                       ''Quiz Finished! Your score: '' @ str_of_nat (correct_count qs as)
                         @ ''/'' @ str_of_nat (length qs)]\<rparr>)"
proof
  assume a: "length as = length qs \<and> list_all well_typed qs"
  let ?w1 = "print (replicate 30 CHR ''-'') (print ''Starting the Quiz!'' \<lparr>stdin = as, stdout = []\<rparr>)"
  have s: "stdin ?w1 = as @ []" by (simp add: print_def)
  have e: "enumerate1 qs = zip [1 ..< 1 + length qs] qs" by (simp add: enumerate1_def)
  have "start_loop (enumerate1 (questions (Quiz_init qs))) (Quiz_init qs) ?w1
      = (Inr ((Quiz_init qs)\<lparr>score := score (Quiz_init qs) + int (correct_count qs as)\<rparr>),
         ?w1\<lparr>stdin := [], stdout := stdout ?w1 @ transcript 1 qs as\<rparr>)"
    using start_loop_run [of as qs ?w1 "[]" 1 "Quiz_init qs"] a s e
    by (simp add: Quiz_init_def)
  then show "start (Quiz_init qs) \<lparr>stdin = as, stdout = []\<rparr>
     = (Inr \<lparr>questions = qs, score = int (correct_count qs as)\<rparr>,
        \<lparr>stdin = [],
           stdout = [''Starting the Quiz!'', replicate 30 CHR ''-''] @ transcript 1 qs as
                    @ [replicate 30 CHR ''-'',
                       ''Quiz Finished! Your score: '' @ str_of_nat (correct_count qs as)
                         @ ''/'' @ str_of_nat (length qs)]\<rparr>)"
    by (simp add: start_def Quiz_init_def print_def str_of_int_def)
qed

theorem start_score_witness:
  "start (Quiz_init [Question (PStr ''2+2?'') (PStr ''4'')]) \<lparr>stdin = [''4''], stdout = []\<rparr>
   = (Inr \<lparr>questions = [Question (PStr ''2+2?'') (PStr ''4'')], score = 1\<rparr>,
      \<lparr>stdin = [],
         stdout = [''Starting the Quiz!'', replicate 30 CHR ''-'', CHR 0x0A # ''Question 1:'', ''2+2?'',
                   ''Your answer: '', ''Correct!'', replicate 30 CHR ''-'',
                   ''Quiz Finished! Your score: 1/1'']\<rparr>)
   \<and> start (Quiz_init [Question (PStr ''2+2?'') (PStr ''4'')]) \<lparr>stdin = [''5''], stdout = []\<rparr>
   = (Inr \<lparr>questions = [Question (PStr ''2+2?'') (PStr ''4'')], score = 0\<rparr>,
      \<lparr>stdin = [],
         stdout = [''Starting the Quiz!'', replicate 30 CHR ''-'', CHR 0x0A # ''Question 1:'', ''2+2?'',
                   ''Your answer: '', ''Wrong! The correct answer was: 4'', replicate 30 CHR ''-'',
                   ''Quiz Finished! Your score: 0/1'']\<rparr>)"
proof -
  let ?q = "Question (PStr ''2+2?'') (PStr ''4'')"
  have wt: "list_all well_typed [?q]"
    by (simp add: well_typed_def is_str_def)
  have t4: "transcript 1 [?q] [''4'']
      = [CHR 0x0A # ''Question 1:'', ''2+2?'', ''Your answer: '', ''Correct!'']"
    by code_simp
  have t5: "transcript 1 [?q] [''5'']
      = [CHR 0x0A # ''Question 1:'', ''2+2?'', ''Your answer: '', ''Wrong! The correct answer was: 4'']"
    by code_simp
  have c4: "correct_count [?q] [''4''] = 1" by code_simp
  have c5: "correct_count [?q] [''5''] = 0" by code_simp
  have n0: "str_of_nat 0 = ''0''" by code_simp
  have n1: "str_of_nat 1 = ''1''" by code_simp
  have len: "length [?q] = 1" by simp
  have pre4: "length [''4''] = length [?q] \<and> list_all well_typed [?q]" using wt by simp
  have pre5: "length [''5''] = length [?q] \<and> list_all well_typed [?q]" using wt by simp
  have a: "start (Quiz_init [?q]) \<lparr>stdin = [''4''], stdout = []\<rparr>
      = (Inr \<lparr>questions = [?q], score = 1\<rparr>,
         \<lparr>stdin = [],
            stdout = [''Starting the Quiz!'', replicate 30 CHR ''-'', CHR 0x0A # ''Question 1:'', ''2+2?'',
                      ''Your answer: '', ''Correct!'', replicate 30 CHR ''-'',
                      ''Quiz Finished! Your score: 1/1'']\<rparr>)"
    using start_score [of "[''4'']" "[?q]", THEN mp, OF pre4] unfolding t4 c4 len n1 by simp
  have b: "start (Quiz_init [?q]) \<lparr>stdin = [''5''], stdout = []\<rparr>
      = (Inr \<lparr>questions = [?q], score = 0\<rparr>,
         \<lparr>stdin = [],
            stdout = [''Starting the Quiz!'', replicate 30 CHR ''-'', CHR 0x0A # ''Question 1:'', ''2+2?'',
                      ''Your answer: '', ''Wrong! The correct answer was: 4'', replicate 30 CHR ''-'',
                      ''Quiz Finished! Your score: 0/1'']\<rparr>)"
    using start_score [of "[''5'']" "[?q]", THEN mp, OF pre5] unfolding t5 c5 len n0 n1 by simp
  show ?thesis using a b by simp
qed

section \<open>Properties of fibonacci\<close>

lemma fibonacci_loop_F_spec:
  "fibonacci_loop k (F_spec m, F_spec (Suc m)) = (F_spec (m + k), F_spec (Suc (m + k)))"
proof (induction k arbitrary: m)
  case 0
  show ?case by simp
next
  case (Suc k)
  have "fibonacci_loop (Suc k) (F_spec m, F_spec (Suc m))
      = fibonacci_loop k (F_spec (Suc m), F_spec (Suc (Suc m)))"
    by (simp add: add.commute)
  also have "\<dots> = (F_spec (Suc m + k), F_spec (Suc (Suc m + k)))"
    by (rule Suc.IH)
  finally show ?case by simp
qed

lemma fibonacci_int_F_spec: "fibonacci (int n) = F_spec n"
  using fibonacci_loop_F_spec [of n 0] by (simp add: fibonacci_def)

text \<open>
  Claim C10. For every natural number \<open>n\<close>, \<open>fibonacci(n)\<close> is the \<open>n\<close>-th Fibonacci number
  under \<open>F(0) = 0\<close>, \<open>F(1) = 1\<close>, \<open>F(n+2) = F(n+1) + F(n)\<close>; in particular
  \<open>fibonacci(0) = 0\<close>, \<open>fibonacci(1) = 1\<close> and
  \<open>fibonacci(n+2) = fibonacci(n+1) + fibonacci(n)\<close>.
\<close>

theorem fibonacci_correct:
  "fibonacci (int n) = F_spec n
   \<and> fibonacci 0 = 0
   \<and> fibonacci 1 = 1
   \<and> fibonacci (int n + 2) = fibonacci (int n + 1) + fibonacci (int n)"
proof -
  have a: "fibonacci 0 = 0" by (simp add: fibonacci_def)
  have b: "fibonacci 1 = 1" using fibonacci_int_F_spec [of 1] by simp
  have c2: "fibonacci (int n + 2) = F_spec (Suc (Suc n))"
    using fibonacci_int_F_spec [of "Suc (Suc n)"] by (simp add: add.commute)
  have c1: "fibonacci (int n + 1) = F_spec (Suc n)"
    using fibonacci_int_F_spec [of "Suc n"] by (simp add: add.commute)
  show ?thesis using a b c1 c2 by (simp add: fibonacci_int_F_spec)
qed

end
